theory Spec2Isabelle
  imports Complex_Main "HOL-Library.Sublist" "HOL-Library.Char_ord" "HOL-Library.List_Lexorder"
begin

section \<open>Data model of create_dockercfg_secrets.go\<close>

text \<open>
  The objects of the Kubernetes api package that the controller reads and writes.
  Only the fields this file touches are kept; a reference is read and built through
  its Name only (\<open>api.ObjectReference{Name: n}\<close>, \<open>api.LocalObjectReference{Name: n}\<close>).
\<close>

record ObjectReference =
  or_Name :: string

record LocalObjectReference =
  lor_Name :: string

record ServiceAccount =
  sa_Name :: string
  sa_Namespace :: string
  sa_UID :: string
  sa_ResourceVersion :: string
  sa_Secrets :: "ObjectReference list"
  sa_ImagePullSecrets :: "LocalObjectReference list"

text \<open>A byte string (\<open>[]byte\<close>) is a \<open>string\<close>: a list of 8-bit characters.\<close>

record Secret =
  sec_Name :: string
  sec_Namespace :: string
  sec_Annotations :: "string \<rightharpoonup> string"
  sec_Type :: string
  sec_Data :: "string \<rightharpoonup> string"

record DockerConfigEntry =
  Username :: string
  Password :: string
  Email :: string

type_synonym DockerConfig = "string \<rightharpoonup> DockerConfigEntry"

subsection \<open>Errors\<close>

text \<open>
  A Go \<open>error\<close> is either an api status error, of which the code inspects the reason
  (\<open>kapierrors.IsConflict\<close>, \<open>kapierrors.IsNotFound\<close>), or a plain error made by
  \<open>fmt.Errorf\<close>. A status error keeps its reason, the resource kind, the object's
  name and the text of its cause. A nil error is \<open>None\<close>.
\<close>

datatype StatusReason =
  StatusReasonConflict | StatusReasonNotFound | StatusReasonAlreadyExists
  | StatusReasonOther string

datatype error =
  StatusError StatusReason string string string
  | ErrorString string

fun Error :: "error \<Rightarrow> string" where
  "Error (StatusError r kind name cause) = cause"
| "Error (ErrorString m) = m"

definition NewConflict :: "string \<Rightarrow> string \<Rightarrow> error \<Rightarrow> error" where
  "NewConflict kind name err = StatusError StatusReasonConflict kind name (Error err)"

fun reasonForError :: "error option \<Rightarrow> StatusReason option" where
  "reasonForError (Some (StatusError r kind name cause)) = Some r"
| "reasonForError (Some (ErrorString m)) = None"
| "reasonForError None = None"

definition IsConflict :: "error option \<Rightarrow> bool" where
  "IsConflict err = (reasonForError err = Some StatusReasonConflict)"

definition IsNotFound :: "error option \<Rightarrow> bool" where
  "IsNotFound err = (reasonForError err = Some StatusReasonNotFound)"

subsection \<open>Constants\<close>

definition ServiceAccountTokenSecretNameKey :: string where
  "ServiceAccountTokenSecretNameKey = ''openshift.io/token-secret.name''"

text \<open>
  The keys and secret types below are constants of the imported Kubernetes api package,
  with the values that package declares.
\<close>

definition ServiceAccountNameKey :: string where
  "ServiceAccountNameKey = ''kubernetes.io/service-account.name''"

definition ServiceAccountUIDKey :: string where
  "ServiceAccountUIDKey = ''kubernetes.io/service-account.uid''"

definition ServiceAccountTokenKey :: string where
  "ServiceAccountTokenKey = ''token''"

definition DockerConfigKey :: string where
  "DockerConfigKey = ''.dockercfg''"

definition SecretTypeServiceAccountToken :: string where
  "SecretTypeServiceAccountToken = ''kubernetes.io/service-account-token''"

definition SecretTypeDockercfg :: string where
  "SecretTypeDockercfg = ''kubernetes.io/dockercfg''"

text \<open>\<open>20 * time.Millisecond\<close>; a \<open>time.Duration\<close> counts nanoseconds.\<close>

definition tokenSecretWaitInterval :: int where
  "tokenSecretWaitInterval = 20 * 1000000"

definition tokenSecretWaitTimes :: nat where
  "tokenSecretWaitTimes = 100"

subsection \<open>The collaborators the controller calls\<close>

text \<open>
  The object store client (\<open>client.Interface\<close>) is outside this file. Each of its
  operations is a function of the state of the outside world \<open>'w\<close>, returning its
  result and the world after the call; nothing is assumed about it, so a world may
  change between two calls as it does under concurrent writers.
\<close>

record 'w Interface =
  ServiceAccounts_Get :: "string \<Rightarrow> string \<Rightarrow> 'w \<Rightarrow> (error + ServiceAccount) \<times> 'w"
  ServiceAccounts_Update :: "string \<Rightarrow> ServiceAccount \<Rightarrow> 'w \<Rightarrow> (error + ServiceAccount) \<times> 'w"
  Secrets_Create :: "string \<Rightarrow> Secret \<Rightarrow> 'w \<Rightarrow> (error + Secret) \<times> 'w"
  Secrets_Get :: "string \<Rightarrow> string \<Rightarrow> 'w \<Rightarrow> (error + Secret) \<times> 'w"
  Secrets_Delete :: "string \<Rightarrow> string \<Rightarrow> 'w \<Rightarrow> error option \<times> 'w"

text \<open>
  The fields of \<open>DockercfgController\<close> that the reconciliation path reads. The stop
  channel, the informer and the lock are left out.
\<close>

record 'w DockercfgController =
  client :: "'w Interface"
  dockerURL :: string

text \<open>
  The library functions the file calls and does not define: the two name prefixes of
  package \<open>osautil\<close>, \<open>secret.Strategy.GenerateName\<close> (which draws a random suffix, so
  it reads and changes the world), \<open>json.Marshal\<close> on a \<open>DockerConfig\<close>,
  \<open>rand.Float64\<close> (the random draw inside \<open>wait.Jitter\<close>, a number from 0 up to but
  not including 1) and \<open>time.Sleep\<close>, during which the world moves on.
\<close>

record 'w Externals =
  GetDockercfgSecretNamePrefix :: "ServiceAccount \<Rightarrow> string"
  GetTokenSecretNamePrefix :: "ServiceAccount \<Rightarrow> string"
  GenerateName :: "string \<Rightarrow> 'w \<Rightarrow> string \<times> 'w"
  json_Marshal :: "DockerConfig \<Rightarrow> error + string"
  rand_Float64 :: "'w \<Rightarrow> real \<times> 'w"
  time_Sleep :: "int \<Rightarrow> 'w \<Rightarrow> 'w"

subsection \<open>Program state\<close>

text \<open>
  Every call that leaves the controller is recorded, with its arguments and its result.
  A sleep is recorded with the two arguments of \<open>wait.Jitter\<close> and the duration slept.
\<close>

datatype event =
  EvServiceAccountsGet string string "error + ServiceAccount"
  | EvServiceAccountsUpdate string ServiceAccount "error + ServiceAccount"
  | EvSecretsCreate string Secret "error + Secret"
  | EvSecretsGet string string "error + Secret"
  | EvSecretsDelete string string "error option"
  | EvGenerateName string string
  | EvSleep int real int
  | EvHandleError error

text \<open>
  A \<open>*api.ServiceAccount\<close> is an address into \<open>heap\<close>. Addresses below \<open>nextp\<close> are
  the objects that exist; an object the client returns is placed at \<open>nextp\<close>.
\<close>

record 'w state =
  world :: 'w
  heap :: "nat \<Rightarrow> ServiceAccount"
  nextp :: nat
  trace :: "event list"

definition emit :: "event \<Rightarrow> 'w state \<Rightarrow> 'w state" where
  "emit ev s = s\<lparr>trace := trace s @ [ev]\<rparr>"

definition call_ServiceAccounts_Get ::
  "'w DockercfgController \<Rightarrow> string \<Rightarrow> string \<Rightarrow> 'w state \<Rightarrow> (error + nat) \<times> 'w state" where
  "call_ServiceAccounts_Get e ns name s =
     (case ServiceAccounts_Get (client e) ns name (world s) of
        (Inl err, w) \<Rightarrow> (Inl err, emit (EvServiceAccountsGet ns name (Inl err)) (s\<lparr>world := w\<rparr>))
      | (Inr v, w) \<Rightarrow>
          (Inr (nextp s),
           emit (EvServiceAccountsGet ns name (Inr v))
             (s\<lparr>world := w, heap := (heap s)(nextp s := v), nextp := Suc (nextp s)\<rparr>)))"

definition call_ServiceAccounts_Update ::
  "'w DockercfgController \<Rightarrow> string \<Rightarrow> nat \<Rightarrow> 'w state \<Rightarrow> error option \<times> 'w state" where
  "call_ServiceAccounts_Update e ns p s =
     (case ServiceAccounts_Update (client e) ns (heap s p) (world s) of
        (r, w) \<Rightarrow>
          ((case r of Inl err \<Rightarrow> Some err | Inr v \<Rightarrow> None),
           emit (EvServiceAccountsUpdate ns (heap s p) r) (s\<lparr>world := w\<rparr>)))"

definition call_Secrets_Create ::
  "'w DockercfgController \<Rightarrow> string \<Rightarrow> Secret \<Rightarrow> 'w state \<Rightarrow> (error + Secret) \<times> 'w state" where
  "call_Secrets_Create e ns sec s =
     (case Secrets_Create (client e) ns sec (world s) of
        (r, w) \<Rightarrow> (r, emit (EvSecretsCreate ns sec r) (s\<lparr>world := w\<rparr>)))"

definition call_Secrets_Get ::
  "'w DockercfgController \<Rightarrow> string \<Rightarrow> string \<Rightarrow> 'w state \<Rightarrow> (error + Secret) \<times> 'w state" where
  "call_Secrets_Get e ns name s =
     (case Secrets_Get (client e) ns name (world s) of
        (r, w) \<Rightarrow> (r, emit (EvSecretsGet ns name r) (s\<lparr>world := w\<rparr>)))"

definition call_Secrets_Delete ::
  "'w DockercfgController \<Rightarrow> string \<Rightarrow> string \<Rightarrow> 'w state \<Rightarrow> error option \<times> 'w state" where
  "call_Secrets_Delete e ns name s =
     (case Secrets_Delete (client e) ns name (world s) of
        (r, w) \<Rightarrow> (r, emit (EvSecretsDelete ns name r) (s\<lparr>world := w\<rparr>)))"

definition call_GenerateName :: "'w Externals \<Rightarrow> string \<Rightarrow> 'w state \<Rightarrow> string \<times> 'w state" where
  "call_GenerateName x base s =
     (case GenerateName x base (world s) of
        (n, w) \<Rightarrow> (n, emit (EvGenerateName base n) (s\<lparr>world := w\<rparr>)))"

text \<open>
  Modelled from the spec: \<open>wait.Jitter\<close> of the Kubernetes wait package, which this file
  calls and does not define. The specification has a fixed small sleep interval with a
  small random jitter added; the function is documented to return a duration between
  \<open>duration\<close> and \<open>duration + maxFactor * duration\<close>, and to choose a default factor,
  which is 1.0, when \<open>maxFactor\<close> is 0.0 or less. It computes
  \<open>duration + time.Duration(rand.Float64() * maxFactor * float64(duration))\<close>; the draw
  is an argument here, a \<open>float64\<close> is read as the real number it stands for, and the
  conversion to a duration drops the fraction.
\<close>

definition jitterFactor :: "real \<Rightarrow> real" where
  "jitterFactor maxFactor = (if maxFactor \<le> 0 then 1 else maxFactor)"

definition Jitter :: "int \<Rightarrow> real \<Rightarrow> real \<Rightarrow> int" where
  "Jitter duration maxFactor draw =
     duration + \<lfloor>draw * jitterFactor maxFactor * real_of_int duration\<rfloor>"

text \<open>\<open>time.Sleep(wait.Jitter(tokenSecretWaitInterval, 0.0))\<close>\<close>

definition call_Sleep :: "'w Externals \<Rightarrow> 'w state \<Rightarrow> 'w state" where
  "call_Sleep x s =
     (case rand_Float64 x (world s) of
        (draw, w) \<Rightarrow>
          emit (EvSleep tokenSecretWaitInterval 0 (Jitter tokenSecretWaitInterval 0 draw))
            (s\<lparr>world := time_Sleep x (Jitter tokenSecretWaitInterval 0 draw) w\<rparr>))"

definition HandleError :: "error \<Rightarrow> 'w state \<Rightarrow> 'w state" where
  "HandleError err s = emit (EvHandleError err) s"

section \<open>The Secret Name Classifier\<close>

definition HasPrefix :: "string \<Rightarrow> string \<Rightarrow> bool" where
  "HasPrefix s p = prefix p s"

text \<open>\<open>sets.String.List\<close>: the members in increasing (bytewise lexicographic) order.\<close>

definition List :: "string set \<Rightarrow> string list" where
  "List A = sorted_list_of_set A"

definition getGeneratedDockercfgSecretNames ::
  "'w Externals \<Rightarrow> ServiceAccount \<Rightarrow> string set \<times> string set" where
  "getGeneratedDockercfgSecretNames x serviceAccount =
     (let secretNamePrefix = GetDockercfgSecretNamePrefix x serviceAccount;
          mountableDockercfgSecrets =
            foldl (\<lambda>acc r. if HasPrefix (or_Name r) secretNamePrefix then insert (or_Name r) acc else acc)
              {} (sa_Secrets serviceAccount);
          imageDockercfgPullSecrets =
            foldl (\<lambda>acc r. if HasPrefix (lor_Name r) secretNamePrefix then insert (lor_Name r) acc else acc)
              {} (sa_ImagePullSecrets serviceAccount)
      in (mountableDockercfgSecrets, imageDockercfgPullSecrets))"

section \<open>The Reference Linker\<close>

text \<open>\<open>%v\<close> of a \<open>[]string\<close>: the elements between brackets, separated by a space.\<close>

fun join :: "string list \<Rightarrow> string" where
  "join [] = []"
| "join [a] = a"
| "join (a # b # bs) = a @ '' '' @ join (b # bs)"

definition fmt_strings :: "string list \<Rightarrow> string" where
  "fmt_strings xs = ''['' @ join xs @ '']''"

definition staleMessage :: "string \<Rightarrow> string list \<Rightarrow> string list \<Rightarrow> string list \<Rightarrow> string list \<Rightarrow> string" where
  "staleMessage n sm si lm li =
     ''cannot add reference to '' @ n @ '' based on stale data.  decision made for ''
       @ fmt_strings sm @ '','' @ fmt_strings si @ '', but live version is ''
       @ fmt_strings lm @ '','' @ fmt_strings li"

definition appendSecret :: "nat \<Rightarrow> string \<Rightarrow> 'w state \<Rightarrow> 'w state" where
  "appendSecret p n s =
     s\<lparr>heap := (heap s)(p := (heap s p)\<lparr>sa_Secrets := sa_Secrets (heap s p) @ [\<lparr>or_Name = n\<rparr>]\<rparr>)\<rparr>"

definition appendImagePullSecret :: "nat \<Rightarrow> string \<Rightarrow> 'w state \<Rightarrow> 'w state" where
  "appendImagePullSecret p n s =
     s\<lparr>heap := (heap s)(p := (heap s p)
        \<lparr>sa_ImagePullSecrets := sa_ImagePullSecrets (heap s p) @ [\<lparr>lor_Name = n\<rparr>]\<rparr>)\<rparr>"

definition createDockerPullSecretReference ::
  "'w Externals \<Rightarrow> 'w DockercfgController \<Rightarrow> nat \<Rightarrow> string \<Rightarrow> 'w state \<Rightarrow> error option \<times> 'w state" where
  "createDockerPullSecretReference x e staleServiceAccount dockercfgSecretName s =
     (case call_ServiceAccounts_Get e (sa_Namespace (heap s staleServiceAccount))
             (sa_Name (heap s staleServiceAccount)) s of
        (Inl err, s1) \<Rightarrow> (Some err, s1)
      | (Inr liveServiceAccount, s1) \<Rightarrow>
          (case getGeneratedDockercfgSecretNames x (heap s1 liveServiceAccount) of
             (mountableDockercfgSecrets, imageDockercfgPullSecrets) \<Rightarrow>
          (case getGeneratedDockercfgSecretNames x (heap s1 staleServiceAccount) of
             (staleDockercfgMountableSecrets, staleImageDockercfgPullSecrets) \<Rightarrow>
           if List staleDockercfgMountableSecrets \<noteq> List mountableDockercfgSecrets
              \<or> List staleImageDockercfgPullSecrets \<noteq> List imageDockercfgPullSecrets
           then (Some (NewConflict ''serviceaccount'' (sa_Name (heap s1 staleServiceAccount))
                   (ErrorString (staleMessage dockercfgSecretName
                      (List staleDockercfgMountableSecrets) (List staleImageDockercfgPullSecrets)
                      (List mountableDockercfgSecrets) (List imageDockercfgPullSecrets)))), s1)
           else
             (let s2 = (if dockercfgSecretName \<notin> mountableDockercfgSecrets
                        then appendSecret liveServiceAccount dockercfgSecretName s1 else s1);
                  s3 = (if dockercfgSecretName \<notin> imageDockercfgPullSecrets
                        then appendImagePullSecret liveServiceAccount dockercfgSecretName s2 else s2);
                  changed = (dockercfgSecretName \<notin> mountableDockercfgSecrets
                             \<or> dockercfgSecretName \<notin> imageDockercfgPullSecrets)
              in if changed
                 then call_ServiceAccounts_Update e (sa_Namespace (heap s3 liveServiceAccount))
                        liveServiceAccount s3
                 else (None, s3)))))"

section \<open>The Token Materializer\<close>

text \<open>
  The loop \<open>for i := 0; i <= tokenSecretWaitTimes; i++\<close>. It yields \<open>Some r\<close> when
  the body returns \<open>r\<close> and \<open>None\<close> when the loop runs to its end.
\<close>

function pollToken ::
  "'w Externals \<Rightarrow> 'w DockercfgController \<Rightarrow> Secret \<Rightarrow> nat \<Rightarrow> 'w state
     \<Rightarrow> (error + Secret) option \<times> 'w state" where
  "pollToken x e tokenSecret i s =
     (if i \<le> tokenSecretWaitTimes
      then (case call_Secrets_Get e (sec_Namespace tokenSecret) (sec_Name tokenSecret) s of
              (Inl err2, s1) \<Rightarrow> (Some (Inl err2), s1)
            | (Inr liveTokenSecret, s1) \<Rightarrow>
                if length (case sec_Data liveTokenSecret ServiceAccountTokenKey of
                             None \<Rightarrow> [] | Some b \<Rightarrow> b) > 0
                then (Some (Inr liveTokenSecret), s1)
                else pollToken x e tokenSecret (Suc i) (call_Sleep x s1))
      else (None, s))"
  by pat_completeness auto
termination
  by (relation "measure (\<lambda>(x, e, tokenSecret, i, s). Suc tokenSecretWaitTimes - i)") auto

declare pollToken.simps [simp del]

definition createTokenSecret ::
  "'w Externals \<Rightarrow> 'w DockercfgController \<Rightarrow> nat \<Rightarrow> 'w state \<Rightarrow> (error + Secret) \<times> 'w state" where
  "createTokenSecret x e serviceAccount s =
     (case call_GenerateName x (GetTokenSecretNamePrefix x (heap s serviceAccount)) s of
        (name, s0) \<Rightarrow>
     (let tokenSecret =
            \<lparr>sec_Name = name,
             sec_Namespace = sa_Namespace (heap s0 serviceAccount),
             sec_Annotations =
               [ServiceAccountNameKey \<mapsto> sa_Name (heap s0 serviceAccount),
                ServiceAccountUIDKey \<mapsto> sa_UID (heap s0 serviceAccount)],
             sec_Type = SecretTypeServiceAccountToken,
             sec_Data = Map.empty\<rparr>
      in case call_Secrets_Create e (sec_Namespace tokenSecret) tokenSecret s0 of
           (Inl err, s1) \<Rightarrow> (Inl err, s1)
         | (Inr created, s1) \<Rightarrow>
             (case pollToken x e tokenSecret 0 s1 of
                (Some r, s2) \<Rightarrow> (r, s2)
              | (None, s2) \<Rightarrow>
                  (case call_Secrets_Delete e (sec_Namespace tokenSecret) (sec_Name tokenSecret) s2 of
                     (deleteErr, s3) \<Rightarrow>
                       (Inl (ErrorString (''token never generated for '' @ sec_Name tokenSecret)),
                        (if deleteErr \<noteq> None \<and> \<not> IsNotFound deleteErr
                         then HandleError (the deleteErr) s3 else s3))))))"

section \<open>The Credential Bundle Builder\<close>

definition createDockerPullSecret ::
  "'w Externals \<Rightarrow> 'w DockercfgController \<Rightarrow> nat \<Rightarrow> 'w state \<Rightarrow> (error + Secret) \<times> 'w state" where
  "createDockerPullSecret x e serviceAccount s =
     (case createTokenSecret x e serviceAccount s of
        (Inl err, s1) \<Rightarrow> (Inl err, s1)
      | (Inr tokenSecret, s1) \<Rightarrow>
          (case call_GenerateName x (GetDockercfgSecretNamePrefix x (heap s1 serviceAccount)) s1 of
             (name, s2) \<Rightarrow>
          (let dockercfgSecret =
                 \<lparr>sec_Name = name,
                  sec_Namespace = sec_Namespace tokenSecret,
                  sec_Annotations =
                    [ServiceAccountNameKey \<mapsto> sa_Name (heap s2 serviceAccount),
                     ServiceAccountUIDKey \<mapsto> sa_UID (heap s2 serviceAccount),
                     ServiceAccountTokenSecretNameKey \<mapsto> sec_Name tokenSecret],
                  sec_Type = SecretTypeDockercfg,
                  sec_Data = Map.empty\<rparr>;
               dockercfg =
                 [dockerURL e \<mapsto>
                    \<lparr>Username = ''serviceaccount'',
                     Password = (case sec_Data tokenSecret ServiceAccountTokenKey of
                                   None \<Rightarrow> [] | Some b \<Rightarrow> b),
                     Email = ''serviceaccount@example.org''\<rparr>]
           in case json_Marshal x dockercfg of
                Inl err \<Rightarrow> (Inl err, s2)
              | Inr dockercfgContent \<Rightarrow>
                  call_Secrets_Create e (sec_Namespace tokenSecret)
                    (dockercfgSecret\<lparr>sec_Data := (sec_Data dockercfgSecret)(DockerConfigKey \<mapsto> dockercfgContent)\<rparr>)
                    s2)))"

section \<open>The Reconciler\<close>

text \<open>
  \<open>List()[0]\<close> on an empty list is a run-time panic (index out of range); it is kept as
  an error outcome of its own, which the guards \<open>foundPullSecret\<close> and
  \<open>foundMountableSecret\<close> make unreachable.
\<close>

definition indexOutOfRange :: error where
  "indexOutOfRange = ErrorString ''panic: runtime error: index out of range''"

definition createDockercfgSecretIfNeeded ::
  "'w Externals \<Rightarrow> 'w DockercfgController \<Rightarrow> nat \<Rightarrow> 'w state \<Rightarrow> error option \<times> 'w state" where
  "createDockercfgSecretIfNeeded x e serviceAccount s =
     (case getGeneratedDockercfgSecretNames x (heap s serviceAccount) of
        (mountableDockercfgSecrets, imageDockercfgPullSecrets) \<Rightarrow>
     (let foundPullSecret = (card imageDockercfgPullSecrets > 0);
          foundMountableSecret = (card mountableDockercfgSecrets > 0)
      in if foundPullSecret \<and> foundMountableSecret then (None, s)
         else if (foundPullSecret \<and> \<not> foundMountableSecret) \<or> (\<not> foundPullSecret \<and> foundMountableSecret)
         then (case (if foundPullSecret then List imageDockercfgPullSecrets
                     else List mountableDockercfgSecrets) of
                 [] \<Rightarrow> (Some indexOutOfRange, s)
               | dockercfgSecretName # rest \<Rightarrow>
                   (case createDockerPullSecretReference x e serviceAccount dockercfgSecretName s of
                      (err, s1) \<Rightarrow> if IsConflict err then (None, s1) else (err, s1)))
         else
           (case call_ServiceAccounts_Get e (sa_Namespace (heap s serviceAccount))
                   (sa_Name (heap s serviceAccount)) s of
              (Inl err, s1) \<Rightarrow> (Some err, s1)
            | (Inr liveServiceAccount, s1) \<Rightarrow>
                if sa_ResourceVersion (heap s1 liveServiceAccount)
                     \<noteq> sa_ResourceVersion (heap s1 serviceAccount)
                then (None, s1)
                else
                  (case createDockerPullSecret x e serviceAccount s1 of
                     (Inl err, s2) \<Rightarrow> (Some err, s2)
                   | (Inr dockercfgSecret, s2) \<Rightarrow>
                       (case createDockerPullSecretReference x e serviceAccount
                               (sec_Name dockercfgSecret) s2 of
                          (err, s3) \<Rightarrow>
                            if IsConflict err
                            then (case call_Secrets_Delete e (sec_Namespace dockercfgSecret)
                                         (sec_Name dockercfgSecret) s3 of
                                    (derr, s4) \<Rightarrow>
                                      (None,
                                       (if derr \<noteq> None \<and> \<not> IsNotFound derr
                                        then HandleError (the derr) s4 else s4)))
                            else (err, s3))))))"

section \<open>The Event Router\<close>

text \<open>The two handlers forward the (new) object and report an error to the error sink.\<close>

definition serviceAccountAdded ::
  "'w Externals \<Rightarrow> 'w DockercfgController \<Rightarrow> nat \<Rightarrow> 'w state \<Rightarrow> 'w state" where
  "serviceAccountAdded x e obj s =
     (case createDockercfgSecretIfNeeded x e obj s of
        (None, s1) \<Rightarrow> s1
      | (Some err, s1) \<Rightarrow> HandleError err s1)"

definition serviceAccountUpdated ::
  "'w Externals \<Rightarrow> 'w DockercfgController \<Rightarrow> nat \<Rightarrow> nat \<Rightarrow> 'w state \<Rightarrow> 'w state" where
  "serviceAccountUpdated x e oldObj newObj s =
     (case createDockercfgSecretIfNeeded x e newObj s of
        (None, s1) \<Rightarrow> s1
      | (Some err, s1) \<Rightarrow> HandleError err s1)"

definition SetDockerURL :: "'w DockercfgController \<Rightarrow> string \<Rightarrow> 'w DockercfgController" where
  "SetDockerURL e newDockerURL = e\<lparr>dockerURL := newDockerURL\<rparr>"

section \<open>A sequential object store\<close>

text \<open>
  Modelled from the spec: the object store behind \<open>client.Interface\<close>, which is not
  part of this file. It is keyed by namespace and name, as section 6 of the
  specification describes the interface the controller consumes. A write carries the version token the caller holds; the store
  rejects it with a Conflict when the stored token differs, and gives the object a new
  token when it accepts. Beside the store, the world holds what else acts on it: the
  supply of random suffixes of the name generator, the supply of random draws, the
  token controller (which fills the empty tokens with \<open>tokenPayload\<close> once
  \<open>tokenDelay\<close> sleeps have passed, or never), and a queue of concurrent writers, one of
  which writes its object during each sleep.
\<close>

record store =
  accounts :: "string \<times> string \<rightharpoonup> ServiceAccount"
  secrets :: "string \<times> string \<rightharpoonup> Secret"
  suffixes :: "string list"
  draws :: "real list"
  tokenDelay :: "nat option"
  tokenPayload :: string
  writers :: "ServiceAccount list"

definition notFound :: "string \<Rightarrow> string \<Rightarrow> error" where
  "notFound kind name = StatusError StatusReasonNotFound kind name ''not found''"

definition newVersion :: "string \<Rightarrow> string" where
  "newVersion v = CHR ''v'' # v"

definition store_ServiceAccounts_Get ::
  "string \<Rightarrow> string \<Rightarrow> store \<Rightarrow> (error + ServiceAccount) \<times> store" where
  "store_ServiceAccounts_Get ns name w =
     (case accounts w (ns, name) of
        None \<Rightarrow> (Inl (notFound ''serviceaccount'' name), w)
      | Some sa \<Rightarrow> (Inr sa, w))"

definition store_ServiceAccounts_Update ::
  "string \<Rightarrow> ServiceAccount \<Rightarrow> store \<Rightarrow> (error + ServiceAccount) \<times> store" where
  "store_ServiceAccounts_Update ns sa w =
     (case accounts w (ns, sa_Name sa) of
        None \<Rightarrow> (Inl (notFound ''serviceaccount'' (sa_Name sa)), w)
      | Some cur \<Rightarrow>
          if sa_ResourceVersion cur \<noteq> sa_ResourceVersion sa
          then (Inl (StatusError StatusReasonConflict ''serviceaccount'' (sa_Name sa)
                       ''the object has been modified''), w)
          else (let sa' = sa\<lparr>sa_ResourceVersion := newVersion (sa_ResourceVersion sa)\<rparr>
                in (Inr sa', w\<lparr>accounts := (accounts w)((ns, sa_Name sa) \<mapsto> sa')\<rparr>)))"

definition store_Secrets_Create :: "string \<Rightarrow> Secret \<Rightarrow> store \<Rightarrow> (error + Secret) \<times> store" where
  "store_Secrets_Create ns sec w =
     (case secrets w (ns, sec_Name sec) of
        Some old \<Rightarrow> (Inl (StatusError StatusReasonAlreadyExists ''secret'' (sec_Name sec)
                            ''already exists''), w)
      | None \<Rightarrow> (Inr sec, w\<lparr>secrets := (secrets w)((ns, sec_Name sec) \<mapsto> sec)\<rparr>))"

definition store_Secrets_Get :: "string \<Rightarrow> string \<Rightarrow> store \<Rightarrow> (error + Secret) \<times> store" where
  "store_Secrets_Get ns name w =
     (case secrets w (ns, name) of
        None \<Rightarrow> (Inl (notFound ''secret'' name), w)
      | Some sec \<Rightarrow> (Inr sec, w))"

definition store_Secrets_Delete :: "string \<Rightarrow> string \<Rightarrow> store \<Rightarrow> error option \<times> store" where
  "store_Secrets_Delete ns name w =
     (case secrets w (ns, name) of
        None \<Rightarrow> (Some (notFound ''secret'' name), w)
      | Some sec \<Rightarrow> (None, w\<lparr>secrets := (secrets w)((ns, name) := None)\<rparr>))"

definition storeClient :: "store Interface" where
  "storeClient =
     \<lparr>ServiceAccounts_Get = store_ServiceAccounts_Get,
      ServiceAccounts_Update = store_ServiceAccounts_Update,
      Secrets_Create = store_Secrets_Create,
      Secrets_Get = store_Secrets_Get,
      Secrets_Delete = store_Secrets_Delete\<rparr>"

definition fillToken :: "string \<Rightarrow> Secret \<Rightarrow> Secret" where
  "fillToken payload sec =
     (if sec_Type sec = SecretTypeServiceAccountToken \<and> sec_Data sec ServiceAccountTokenKey = None
      then sec\<lparr>sec_Data := (sec_Data sec)(ServiceAccountTokenKey \<mapsto> payload)\<rparr>
      else sec)"

definition tokenController :: "store \<Rightarrow> store" where
  "tokenController w =
     (case tokenDelay w of
        None \<Rightarrow> w
      | Some 0 \<Rightarrow> w\<lparr>secrets := (\<lambda>k. map_option (fillToken (tokenPayload w)) (secrets w k))\<rparr>
      | Some (Suc n) \<Rightarrow> w\<lparr>tokenDelay := Some n\<rparr>)"

definition concurrentWriter :: "store \<Rightarrow> store" where
  "concurrentWriter w =
     (case writers w of
        [] \<Rightarrow> w
      | sa # rest \<Rightarrow>
          w\<lparr>accounts := (accounts w)((sa_Namespace sa, sa_Name sa) \<mapsto> sa), writers := rest\<rparr>)"

definition store_Sleep :: "int \<Rightarrow> store \<Rightarrow> store" where
  "store_Sleep d w = concurrentWriter (tokenController w)"

definition store_Float64 :: "store \<Rightarrow> real \<times> store" where
  "store_Float64 w =
     (case draws w of
        [] \<Rightarrow> (0, w)
      | draw # rest \<Rightarrow> (draw, w\<lparr>draws := rest\<rparr>))"

definition store_GenerateName :: "string \<Rightarrow> store \<Rightarrow> string \<times> store" where
  "store_GenerateName base w =
     (case suffixes w of
        [] \<Rightarrow> (base, w)
      | sfx # rest \<Rightarrow> (base @ sfx, w\<lparr>suffixes := rest\<rparr>))"

text \<open>
  The externals over this world. The two prefixes are functions of the principal's
  namespace and name, and \<open>json.Marshal\<close> stays a parameter.
\<close>

definition storeExternals ::
  "(string \<Rightarrow> string \<Rightarrow> string) \<Rightarrow> (string \<Rightarrow> string \<Rightarrow> string) \<Rightarrow> (DockerConfig \<Rightarrow> error + string)
     \<Rightarrow> store Externals" where
  "storeExternals dockercfgPrefix tokenPrefix marshal =
     \<lparr>GetDockercfgSecretNamePrefix = (\<lambda>sa. dockercfgPrefix (sa_Namespace sa) (sa_Name sa)),
      GetTokenSecretNamePrefix = (\<lambda>sa. tokenPrefix (sa_Namespace sa) (sa_Name sa)),
      GenerateName = store_GenerateName,
      json_Marshal = marshal,
      rand_Float64 = store_Float64,
      time_Sleep = store_Sleep\<rparr>"

text \<open>The instance of the specification's scenario: \<open>default-dockercfg-\<close>, \<open>default-token-\<close>.\<close>

text \<open>
  A stand-in for the serializer, which renders the entry stored under the example
  registry.
\<close>

definition exampleMarshal :: "DockerConfig \<Rightarrow> error + string" where
  "exampleMarshal cfg =
     (case cfg ''registry.example.com'' of
        None \<Rightarrow> Inl (ErrorString ''json: unsupported value'')
      | Some entry \<Rightarrow>
          Inr (''registry.example.com '' @ Username entry @ '' '' @ Password entry @ '' '' @ Email entry))"

definition exampleExternals :: "store Externals" where
  "exampleExternals =
     storeExternals (\<lambda>ns name. name @ ''-dockercfg-'') (\<lambda>ns name. name @ ''-token-'') exampleMarshal"

definition exampleController :: "store DockercfgController" where
  "exampleController = \<lparr>client = storeClient, dockerURL = ''registry.example.com''\<rparr>"

section \<open>Auxiliary notions for the statements\<close>

text \<open>The state a successful \<open>ServiceAccounts.Get\<close> leaves: the fetched object is new.\<close>

definition afterGet :: "'w state \<Rightarrow> string \<Rightarrow> string \<Rightarrow> ServiceAccount \<Rightarrow> 'w \<Rightarrow> 'w state" where
  "afterGet s ns name live w =
     s\<lparr>world := w, heap := (heap s)(nextp s := live), nextp := Suc (nextp s),
       trace := trace s @ [EvServiceAccountsGet ns name (Inr live)]\<rparr>"

text \<open>
  The fetched object after the linker's two appends, \<open>m\<close> and \<open>i\<close> being the sets of
  generated names of its two lists.
\<close>

definition linked :: "string \<Rightarrow> string set \<Rightarrow> string set \<Rightarrow> ServiceAccount \<Rightarrow> ServiceAccount" where
  "linked n m i live =
     live\<lparr>sa_Secrets := (if n \<in> m then sa_Secrets live else sa_Secrets live @ [\<lparr>or_Name = n\<rparr>]),
          sa_ImagePullSecrets :=
            (if n \<in> i then sa_ImagePullSecrets live else sa_ImagePullSecrets live @ [\<lparr>lor_Name = n\<rparr>])\<rparr>"

fun isServiceAccountsEvent :: "event \<Rightarrow> bool" where
  "isServiceAccountsEvent (EvServiceAccountsGet ns name r) = True"
| "isServiceAccountsEvent (EvServiceAccountsUpdate ns sa r) = True"
| "isServiceAccountsEvent ev = False"

subsection \<open>Concrete inputs\<close>

text \<open>The principal \<open>ns/default\<close> with the given lists and version token.\<close>

definition examplePrincipal :: "string list \<Rightarrow> string list \<Rightarrow> string \<Rightarrow> ServiceAccount" where
  "examplePrincipal secs pulls ver =
     \<lparr>sa_Name = ''default'', sa_Namespace = ''ns'', sa_UID = ''uid-1'', sa_ResourceVersion = ver,
      sa_Secrets = map (\<lambda>n. \<lparr>or_Name = n\<rparr>) secs,
      sa_ImagePullSecrets = map (\<lambda>n. \<lparr>lor_Name = n\<rparr>) pulls\<rparr>"

definition exampleStore :: "ServiceAccount \<Rightarrow> store" where
  "exampleStore sa =
     \<lparr>accounts = [(''ns'', ''default'') \<mapsto> sa], secrets = Map.empty,
      suffixes = [''abc'', ''xyz''], draws = [], tokenDelay = Some 0, tokenPayload = ''t0ken'',
      writers = []\<rparr>"

text \<open>The handler's argument is the object at address 0; the trace starts empty.\<close>

definition snapshotState :: "ServiceAccount \<Rightarrow> 'w \<Rightarrow> 'w state" where
  "snapshotState sa w = \<lparr>world = w, heap = (\<lambda>p. sa), nextp = 1, trace = []\<rparr>"

text \<open>
  A stale snapshot: the handler holds version 1, in which the generated bundle is only in
  the pull-secret list, while the store already holds version 2 with both lists linked.
\<close>

definition staleState :: "store state" where
  "staleState =
     snapshotState (examplePrincipal [] [''default-dockercfg-old''] ''1'')
       (exampleStore (examplePrincipal [''default-dockercfg-old''] [''default-dockercfg-old''] ''2''))"

text \<open>A principal whose two generated bundles are only in the pull-secret list.\<close>

definition repairState :: "store state" where
  "repairState =
     snapshotState (examplePrincipal [] [''default-dockercfg-b'', ''default-dockercfg-a''] ''1'')
       (exampleStore (examplePrincipal [] [''default-dockercfg-b'', ''default-dockercfg-a''] ''1''))"

text \<open>A snapshot at version 1 without generated bundles, the store being at version 2.\<close>

definition outdatedState :: "store state" where
  "outdatedState =
     snapshotState (examplePrincipal [] [] ''1'') (exampleStore (examplePrincipal [''other''] [] ''2''))"

text \<open>A principal whose generated bundle is only in the pull-secret list.\<close>

definition halfLinkedState :: "store state" where
  "halfLinkedState =
     snapshotState (examplePrincipal [] [''default-dockercfg-old''] ''1'')
       (exampleStore (examplePrincipal [] [''default-dockercfg-old''] ''1''))"

text \<open>A principal whose two lists hold the name \<open>foo\<close>, which is not a generated name.\<close>

definition foreignNameState :: "store state" where
  "foreignNameState =
     snapshotState (examplePrincipal [''foo''] [''foo''] ''1'')
       (exampleStore (examplePrincipal [''foo''] [''foo''] ''1''))"

text \<open>The token a secret carries: \<open>Data[api.ServiceAccountTokenKey]\<close>, empty when the key is absent.\<close>

definition tokenOf :: "Secret \<Rightarrow> string" where
  "tokenOf sec = (case sec_Data sec ServiceAccountTokenKey of None \<Rightarrow> [] | Some b \<Rightarrow> b)"


text \<open>No service account object was created or changed between two states.\<close>

definition sameObjects :: "'w state \<Rightarrow> 'w state \<Rightarrow> bool" where
  "sameObjects s s' = (heap s' = heap s \<and> nextp s' = nextp s)"


text \<open>The token secret the controller creates for \<open>ns/default\<close>, empty and filled.\<close>

definition exampleToken :: Secret where
  "exampleToken =
     \<lparr>sec_Name = ''default-token-abc'', sec_Namespace = ''ns'',
      sec_Annotations = [ServiceAccountNameKey \<mapsto> ''default'', ServiceAccountUIDKey \<mapsto> ''uid-1''],
      sec_Type = SecretTypeServiceAccountToken, sec_Data = Map.empty\<rparr>"

definition filledToken :: Secret where
  "filledToken = exampleToken\<lparr>sec_Data := [ServiceAccountTokenKey \<mapsto> ''t0ken'']\<rparr>"

text \<open>The scenario of the specification: no generated secrets, the token is filled during the first sleep.\<close>

definition happyState :: "store state" where
  "happyState = snapshotState (examplePrincipal [] [] ''1'') (exampleStore (examplePrincipal [] [] ''1''))"

text \<open>The bundle built in that scenario.\<close>

definition exampleBundle :: Secret where
  "exampleBundle =
     \<lparr>sec_Name = ''default-dockercfg-xyz'', sec_Namespace = ''ns'',
      sec_Annotations =
        [ServiceAccountNameKey \<mapsto> ''default'', ServiceAccountUIDKey \<mapsto> ''uid-1'',
         ServiceAccountTokenSecretNameKey \<mapsto> ''default-token-abc''],
      sec_Type = SecretTypeDockercfg,
      sec_Data =
        [DockerConfigKey \<mapsto> ''registry.example.com serviceaccount t0ken serviceaccount@example.org'']\<rparr>"

text \<open>
  The same scenario with a concurrent writer, who links another generated bundle into the
  principal (version 2) during the first sleep.
\<close>

definition raceState :: "store state" where
  "raceState =
     snapshotState (examplePrincipal [] [] ''1'')
       ((exampleStore (examplePrincipal [] [] ''1''))
          \<lparr>writers := [examplePrincipal [''default-dockercfg-other''] [''default-dockercfg-other''] ''2'']\<rparr>)"

text \<open>Every object that exists in the first state exists unchanged in the second.\<close>

definition objectsKept :: "'w state \<Rightarrow> 'w state \<Rightarrow> bool" where
  "objectsKept s s' = (nextp s \<le> nextp s' \<and> (\<forall>q<nextp s. heap s' q = heap s q))"

text \<open>A bundle was created: \<open>Secrets.Create\<close> of a dockercfg secret succeeded.\<close>

fun isBundleCreated :: "event \<Rightarrow> bool" where
  "isBundleCreated (EvSecretsCreate ns sec (Inr created)) = (sec_Type sec = SecretTypeDockercfg)"
| "isBundleCreated ev = False"

definition bundlesCreated :: "event list \<Rightarrow> nat" where
  "bundlesCreated tr = length (filter isBundleCreated tr)"

text \<open>The trace grows between two states without a bundle being created.\<close>

definition noBundle :: "'w state \<Rightarrow> 'w state \<Rightarrow> bool" where
  "noBundle s s' = (\<exists>evs. trace s' = trace s @ evs \<and> bundlesCreated evs = 0)"

text \<open>
  Without concurrent writers, the second state has none either and holds the same
  service accounts.
\<close>

definition quiet :: "store state \<Rightarrow> store state \<Rightarrow> bool" where
  "quiet s s' =
     (writers (world s) = [] \<longrightarrow> writers (world s') = [] \<and> accounts (world s') = accounts (world s))"

text \<open>The object the store holds once it has accepted the linker's write.\<close>

definition relinked :: "string \<Rightarrow> string set \<Rightarrow> string set \<Rightarrow> ServiceAccount \<Rightarrow> ServiceAccount" where
  "relinked n m i sa = (linked n m i sa)\<lparr>sa_ResourceVersion := newVersion (sa_ResourceVersion sa)\<rparr>"

text \<open>
  The snapshot at \<open>p\<close> is the stored state of its principal, and no concurrent writer
  is pending.
\<close>

definition settled :: "store state \<Rightarrow> nat \<Rightarrow> bool" where
  "settled s p =
     (p < nextp s \<and> writers (world s) = []
      \<and> accounts (world s) (sa_Namespace (heap s p), sa_Name (heap s p)) = Some (heap s p))"


text \<open>
  A store that refuses every write of a service account with a Forbidden status error,
  and a supply of four suffixes.
\<close>

definition forbidden :: error where
  "forbidden = StatusError (StatusReasonOther ''Forbidden'') ''serviceaccount'' ''default'' ''forbidden''"

definition forbiddenController :: "store DockercfgController" where
  "forbiddenController =
     \<lparr>client = storeClient\<lparr>ServiceAccounts_Update := (\<lambda>ns sa w. (Inl forbidden, w))\<rparr>,
      dockerURL = ''registry.example.com''\<rparr>"

definition forbiddenState :: "store state" where
  "forbiddenState =
     snapshotState (examplePrincipal [] [] ''1'')
       ((exampleStore (examplePrincipal [] [] ''1''))\<lparr>suffixes := [''abc'', ''xyz'', ''def'', ''uvw'']\<rparr>)"

section \<open>Properties of the classifier\<close>

lemma foldl_insert_filter:
  "foldl (\<lambda>acc r. if P (f r) then insert (f r) acc else acc) A xs = A \<union> {n \<in> f ` set xs. P n}"
  by (induction xs arbitrary: A) auto

lemma getGenerated_eq:
  "getGeneratedDockercfgSecretNames x sa =
     ({n \<in> or_Name ` set (sa_Secrets sa). prefix (GetDockercfgSecretNamePrefix x sa) n},
      {n \<in> lor_Name ` set (sa_ImagePullSecrets sa). prefix (GetDockercfgSecretNamePrefix x sa) n})"
  by (simp add: getGeneratedDockercfgSecretNames_def Let_def foldl_insert_filter HasPrefix_def)

lemma finite_getGenerated:
  "finite (fst (getGeneratedDockercfgSecretNames x sa))"
  "finite (snd (getGeneratedDockercfgSecretNames x sa))"
  by (simp_all add: getGenerated_eq)

lemma List_eq_iff: "finite A \<Longrightarrow> finite B \<Longrightarrow> (List A = List B) = (A = B)"
  by (auto simp: List_def dest: sorted_list_of_set_inject)

lemma List_hd: "finite A \<Longrightarrow> A \<noteq> {} \<Longrightarrow> \<exists>rest. List A = Min A # rest"
  by (simp add: List_def sorted_list_of_set_nonempty)

section \<open>Properties of the Reference Linker\<close>

lemma linker_get_error:
  assumes "ServiceAccounts_Get (client e) (sa_Namespace (heap s p)) (sa_Name (heap s p)) (world s)
             = (Inl err, w)"
  shows "createDockerPullSecretReference x e p n s =
           (Some err, s\<lparr>world := w,
              trace := trace s @ [EvServiceAccountsGet (sa_Namespace (heap s p)) (sa_Name (heap s p)) (Inl err)]\<rparr>)"
  using assms
  by (simp add: createDockerPullSecretReference_def call_ServiceAccounts_Get_def emit_def)

lemma linker_differ:
  assumes get: "ServiceAccounts_Get (client e) (sa_Namespace (heap s p)) (sa_Name (heap s p)) (world s)
                  = (Inr live, w)"
    and differ: "getGeneratedDockercfgSecretNames x live \<noteq> getGeneratedDockercfgSecretNames x (heap s p)"
    and old: "p < nextp s"
  shows "\<exists>err. createDockerPullSecretReference x e p n s =
           (Some err, afterGet s (sa_Namespace (heap s p)) (sa_Name (heap s p)) live w)
         \<and> IsConflict (Some err)"
proof -
  obtain lm li where l: "getGeneratedDockercfgSecretNames x live = (lm, li)" by force
  obtain sm si where st: "getGeneratedDockercfgSecretNames x (heap s p) = (sm, si)" by force
  have fin: "finite lm" "finite li" "finite sm" "finite si"
    using finite_getGenerated[of x live] finite_getGenerated[of x "heap s p"] l st by simp_all
  from differ l st have "sm \<noteq> lm \<or> si \<noteq> li" by auto
  then have ne: "List sm \<noteq> List lm \<or> List si \<noteq> List li"
    using fin by (simp add: List_eq_iff)
  from old have pne: "p \<noteq> nextp s" by simp
  show ?thesis
    using get l st ne pne
    by (auto simp: createDockerPullSecretReference_def call_ServiceAccounts_Get_def emit_def
        IsConflict_def NewConflict_def afterGet_def)
qed

lemma linker_agree:
  assumes get: "ServiceAccounts_Get (client e) (sa_Namespace (heap s p)) (sa_Name (heap s p)) (world s)
                  = (Inr live, w)"
    and l: "getGeneratedDockercfgSecretNames x live = (m, i)"
    and st: "getGeneratedDockercfgSecretNames x (heap s p) = (m, i)"
    and old: "p < nextp s"
  shows "createDockerPullSecretReference x e p n s =
           (if n \<in> m \<and> n \<in> i
            then (None, afterGet s (sa_Namespace (heap s p)) (sa_Name (heap s p)) live w)
            else (case ServiceAccounts_Update (client e) (sa_Namespace live) (linked n m i live) w of
                    (r, w') \<Rightarrow>
                      ((case r of Inl err \<Rightarrow> Some err | Inr v \<Rightarrow> None),
                       s\<lparr>world := w', heap := (heap s)(nextp s := linked n m i live),
                         nextp := Suc (nextp s),
                         trace := trace s @
                           [EvServiceAccountsGet (sa_Namespace (heap s p)) (sa_Name (heap s p)) (Inr live),
                            EvServiceAccountsUpdate (sa_Namespace live) (linked n m i live) r]\<rparr>)))"
proof -
  from old have pne: "p \<noteq> nextp s" by simp
  show ?thesis
    using get l st pne
    by (auto simp: createDockerPullSecretReference_def call_ServiceAccounts_Get_def emit_def
        call_ServiceAccounts_Update_def appendSecret_def appendImagePullSecret_def linked_def
        afterGet_def Let_def split: prod.splits sum.splits)
qed

lemma linker_trace:
  "\<exists>evs. trace (snd (createDockerPullSecretReference x e p n s)) = trace s @ evs
         \<and> list_all isServiceAccountsEvent evs"
  by (auto simp: createDockerPullSecretReference_def call_ServiceAccounts_Get_def emit_def
      call_ServiceAccounts_Update_def appendSecret_def appendImagePullSecret_def Let_def
      split: prod.splits sum.splits)

text \<open>
  C3: whenever the generated-bundle classification of the freshly fetched principal
  differs from the classification of the caller's snapshot, the linker returns a
  Conflict error and writes nothing: the only call it makes is the Get, and the world
  it leaves is the world that Get returned.
\<close>

theorem createDockerPullSecretReference_stale_conflict:
  assumes "ServiceAccounts_Get (client e) (sa_Namespace (heap s p)) (sa_Name (heap s p)) (world s)
             = (Inr live, w)"
    and "getGeneratedDockercfgSecretNames x live \<noteq> getGeneratedDockercfgSecretNames x (heap s p)"
    and "p < nextp s"
  shows "IsConflict (fst (createDockerPullSecretReference x e p n s))
         \<and> snd (createDockerPullSecretReference x e p n s) =
             s\<lparr>world := w, heap := (heap s)(nextp s := live), nextp := Suc (nextp s),
               trace := trace s @
                 [EvServiceAccountsGet (sa_Namespace (heap s p)) (sa_Name (heap s p)) (Inr live)]\<rparr>"
  using linker_differ[OF assms, of n] by (auto simp: afterGet_def)

lemma example_simps:
  "client exampleController = storeClient"
  "dockerURL exampleController = ''registry.example.com''"
  "ServiceAccounts_Get storeClient = store_ServiceAccounts_Get"
  "ServiceAccounts_Update storeClient = store_ServiceAccounts_Update"
  "Secrets_Create storeClient = store_Secrets_Create"
  "Secrets_Get storeClient = store_Secrets_Get"
  "Secrets_Delete storeClient = store_Secrets_Delete"
  "GetDockercfgSecretNamePrefix exampleExternals = (\<lambda>sa. sa_Name sa @ ''-dockercfg-'')"
  "GetTokenSecretNamePrefix exampleExternals = (\<lambda>sa. sa_Name sa @ ''-token-'')"
  "GenerateName exampleExternals = store_GenerateName"
  "json_Marshal exampleExternals = exampleMarshal"
  "rand_Float64 exampleExternals = store_Float64"
  "time_Sleep exampleExternals = store_Sleep"
  by (simp_all add: exampleController_def storeClient_def exampleExternals_def storeExternals_def)

theorem createDockerPullSecretReference_stale_conflict_witness:
  "IsConflict (fst (createDockerPullSecretReference exampleExternals exampleController 0
                 ''default-dockercfg-old'' staleState))
   \<and> world (snd (createDockerPullSecretReference exampleExternals exampleController 0
                 ''default-dockercfg-old'' staleState)) = world staleState
   \<and> length (trace (snd (createDockerPullSecretReference exampleExternals exampleController 0
                 ''default-dockercfg-old'' staleState))) = 1"
proof -
  let ?live = "examplePrincipal [''default-dockercfg-old''] [''default-dockercfg-old''] ''2''"
  have h1: "ServiceAccounts_Get (client exampleController) (sa_Namespace (heap staleState 0))
              (sa_Name (heap staleState 0)) (world staleState) = (Inr ?live, world staleState)"
    by (simp add: staleState_def example_simps snapshotState_def exampleStore_def
        examplePrincipal_def store_ServiceAccounts_Get_def)
  have h2: "getGeneratedDockercfgSecretNames exampleExternals ?live
              \<noteq> getGeneratedDockercfgSecretNames exampleExternals (heap staleState 0)"
    by (simp add: staleState_def getGenerated_eq example_simps snapshotState_def examplePrincipal_def)
  have h3: "0 < nextp staleState"
    by (simp add: staleState_def snapshotState_def)
  show ?thesis
    using createDockerPullSecretReference_stale_conflict[OF h1 h2 h3, of "''default-dockercfg-old''"]
    by (simp add: staleState_def snapshotState_def)
qed

section \<open>Properties of the Reconciler: bundles linked on one side\<close>

lemma reconcile_one_sided:
  assumes cls: "getGeneratedDockercfgSecretNames x (heap s p) = (m, i)"
    and one: "(m = {}) \<noteq> (i = {})"
  shows "createDockercfgSecretIfNeeded x e p s =
           (case createDockerPullSecretReference x e p (Min (if i \<noteq> {} then i else m)) s of
              (err, s1) \<Rightarrow> (if IsConflict err then None else err, s1))"
proof -
  have fin: "finite m" "finite i"
    using finite_getGenerated[of x "heap s p"] cls by simp_all
  show ?thesis
  proof (cases "i = {}")
    case True
    with one have mne: "m \<noteq> {}" by simp
    from List_hd[OF fin(1) mne] obtain rest where "List m = Min m # rest" ..
    then show ?thesis
      using cls True mne fin
      by (simp add: createDockercfgSecretIfNeeded_def card_gt_0_iff Let_def split: prod.splits)
  next
    case False
    with one have me: "m = {}" by simp
    from List_hd[OF fin(2) False] obtain rest where "List i = Min i # rest" ..
    then show ?thesis
      using cls False me fin
      by (simp add: createDockercfgSecretIfNeeded_def card_gt_0_iff Let_def split: prod.splits)
  qed
qed

text \<open>
  C2: when exactly one of the two classification sets is non-empty, the reconciler hands
  the least name (in lexicographic order) of the non-empty set to the linker and returns
  what the linker returns, except that a Conflict becomes success; every call it makes is
  a call on the service account, so no token and no bundle is created; and when the
  fetched principal classifies as the snapshot does, the object written back is the
  fetched one with that name appended to the list that lacked it.
\<close>

theorem createDockercfgSecretIfNeeded_one_sided:
  assumes cls: "getGeneratedDockercfgSecretNames x (heap s p) = (m, i)"
    and one: "(m = {}) \<noteq> (i = {})"
    and n: "n = Min (if i \<noteq> {} then i else m)"
  shows "createDockercfgSecretIfNeeded x e p s =
           (case createDockerPullSecretReference x e p n s of
              (err, s1) \<Rightarrow> (if IsConflict err then None else err, s1))
         \<and> (\<exists>evs. trace (snd (createDockercfgSecretIfNeeded x e p s)) = trace s @ evs
                  \<and> list_all isServiceAccountsEvent evs)
         \<and> (\<forall>live w. p < nextp s
               \<and> ServiceAccounts_Get (client e) (sa_Namespace (heap s p)) (sa_Name (heap s p)) (world s)
                   = (Inr live, w)
               \<and> getGeneratedDockercfgSecretNames x live = (m, i)
             \<longrightarrow> (\<exists>r w' repaired.
                    repaired =
                      (if i \<noteq> {} then live\<lparr>sa_Secrets := sa_Secrets live @ [\<lparr>or_Name = n\<rparr>]\<rparr>
                       else live\<lparr>sa_ImagePullSecrets := sa_ImagePullSecrets live @ [\<lparr>lor_Name = n\<rparr>]\<rparr>)
                    \<and> ServiceAccounts_Update (client e) (sa_Namespace live) repaired w = (r, w')
                    \<and> createDockercfgSecretIfNeeded x e p s =
                        ((case r of Inl err \<Rightarrow> if IsConflict (Some err) then None else Some err
                                  | Inr v \<Rightarrow> None),
                         s\<lparr>world := w', heap := (heap s)(nextp s := repaired), nextp := Suc (nextp s),
                           trace := trace s @
                             [EvServiceAccountsGet (sa_Namespace (heap s p)) (sa_Name (heap s p)) (Inr live),
                              EvServiceAccountsUpdate (sa_Namespace live) repaired r]\<rparr>)))"
proof -
  have eq: "createDockercfgSecretIfNeeded x e p s =
           (case createDockerPullSecretReference x e p n s of
              (err, s1) \<Rightarrow> (if IsConflict err then None else err, s1))"
    using reconcile_one_sided[OF cls one] n by simp
  have tr: "\<exists>evs. trace (snd (createDockercfgSecretIfNeeded x e p s)) = trace s @ evs
                  \<and> list_all isServiceAccountsEvent evs"
    using linker_trace[of x e p n s] by (auto simp: eq split: prod.splits)
  have fin: "finite m" "finite i"
    using finite_getGenerated[of x "heap s p"] cls by simp_all
  have mem: "(i \<noteq> {} \<longrightarrow> n \<in> i \<and> n \<notin> m) \<and> (i = {} \<longrightarrow> n \<in> m \<and> n \<notin> i)"
    using one n fin by (auto intro: Min_in)
  have rep: "\<exists>r w' repaired.
                    repaired =
                      (if i \<noteq> {} then live\<lparr>sa_Secrets := sa_Secrets live @ [\<lparr>or_Name = n\<rparr>]\<rparr>
                       else live\<lparr>sa_ImagePullSecrets := sa_ImagePullSecrets live @ [\<lparr>lor_Name = n\<rparr>]\<rparr>)
                    \<and> ServiceAccounts_Update (client e) (sa_Namespace live) repaired w = (r, w')
                    \<and> createDockercfgSecretIfNeeded x e p s =
                        ((case r of Inl err \<Rightarrow> if IsConflict (Some err) then None else Some err
                                  | Inr v \<Rightarrow> None),
                         s\<lparr>world := w', heap := (heap s)(nextp s := repaired), nextp := Suc (nextp s),
                           trace := trace s @
                             [EvServiceAccountsGet (sa_Namespace (heap s p)) (sa_Name (heap s p)) (Inr live),
                              EvServiceAccountsUpdate (sa_Namespace live) repaired r]\<rparr>)"
    if old: "p < nextp s"
      and get: "ServiceAccounts_Get (client e) (sa_Namespace (heap s p)) (sa_Name (heap s p)) (world s)
                   = (Inr live, w)"
      and l: "getGeneratedDockercfgSecretNames x live = (m, i)"
    for live w
  proof -
    have lk: "linked n m i live =
                (if i \<noteq> {} then live\<lparr>sa_Secrets := sa_Secrets live @ [\<lparr>or_Name = n\<rparr>]\<rparr>
                 else live\<lparr>sa_ImagePullSecrets := sa_ImagePullSecrets live @ [\<lparr>lor_Name = n\<rparr>]\<rparr>)"
      using mem by (auto simp: linked_def)
    obtain r w' where upd: "ServiceAccounts_Update (client e) (sa_Namespace live) (linked n m i live) w = (r, w')"
      by force
    have nboth: "\<not> (n \<in> m \<and> n \<in> i)" using mem by auto
    show ?thesis
      using linker_agree[OF get l cls old, of n] upd nboth lk
      by (auto simp: eq IsConflict_def split: sum.splits)
  qed
  from eq tr rep show ?thesis by blast
qed

theorem createDockercfgSecretIfNeeded_one_sided_witness:
  "getGeneratedDockercfgSecretNames exampleExternals (heap repairState 0)
     = ({}, {''default-dockercfg-b'', ''default-dockercfg-a''})
   \<and> fst (createDockercfgSecretIfNeeded exampleExternals exampleController 0 repairState) = None
   \<and> accounts (world (snd (createDockercfgSecretIfNeeded exampleExternals exampleController 0 repairState)))
        (''ns'', ''default'')
      = Some (examplePrincipal [''default-dockercfg-a''] [''default-dockercfg-b'', ''default-dockercfg-a''] ''v1'')"
proof -
  let ?P = "examplePrincipal [] [''default-dockercfg-b'', ''default-dockercfg-a''] ''1''"
  have cls: "getGeneratedDockercfgSecretNames exampleExternals (heap repairState 0)
               = ({}, {''default-dockercfg-b'', ''default-dockercfg-a''})"
    by (auto simp: repairState_def getGenerated_eq example_simps snapshotState_def examplePrincipal_def)
  have one: "(({}::string set) = {}) \<noteq> ({''default-dockercfg-b'', ''default-dockercfg-a''} = ({}::string set))"
    by simp
  have n: "''default-dockercfg-a'' =
             Min (if {''default-dockercfg-b'', ''default-dockercfg-a''} \<noteq> ({}::string set)
                  then {''default-dockercfg-b'', ''default-dockercfg-a''} else {})"
    by simp
  have old: "0 < nextp repairState"
    by (simp add: repairState_def snapshotState_def)
  have get: "ServiceAccounts_Get (client exampleController) (sa_Namespace (heap repairState 0))
              (sa_Name (heap repairState 0)) (world repairState) = (Inr ?P, world repairState)"
    by (simp add: repairState_def example_simps snapshotState_def exampleStore_def
        examplePrincipal_def store_ServiceAccounts_Get_def)
  have l: "getGeneratedDockercfgSecretNames exampleExternals ?P
               = ({}, {''default-dockercfg-b'', ''default-dockercfg-a''})"
    using cls by (simp add: repairState_def snapshotState_def)
  from createDockercfgSecretIfNeeded_one_sided[OF cls one n, of exampleController] old get l
  show ?thesis
    apply (simp only: cls)
    apply (elim conjE allE[where x = "?P"] allE[where x = "world repairState"])
    apply (simp add: repairState_def example_simps snapshotState_def exampleStore_def
        examplePrincipal_def store_ServiceAccounts_Update_def newVersion_def Let_def)
    done
qed

text \<open>
  C4: when both classification sets are empty, the reconciler first fetches the principal
  again, and when the fetched version token differs from the snapshot's it returns
  success having made no other call: no token, no bundle, no write.
\<close>

theorem createDockercfgSecretIfNeeded_outdated_snapshot:
  assumes "getGeneratedDockercfgSecretNames x (heap s p) = ({}, {})"
    and "ServiceAccounts_Get (client e) (sa_Namespace (heap s p)) (sa_Name (heap s p)) (world s)
           = (Inr live, w)"
    and "sa_ResourceVersion live \<noteq> sa_ResourceVersion (heap s p)"
    and "p < nextp s"
  shows "createDockercfgSecretIfNeeded x e p s =
           (None,
            s\<lparr>world := w, heap := (heap s)(nextp s := live), nextp := Suc (nextp s),
              trace := trace s @
                [EvServiceAccountsGet (sa_Namespace (heap s p)) (sa_Name (heap s p)) (Inr live)]\<rparr>)"
proof -
  from assms(4) have pne: "p \<noteq> nextp s" by simp
  show ?thesis
    using assms(1-3) pne
    by (simp add: createDockercfgSecretIfNeeded_def call_ServiceAccounts_Get_def emit_def)
qed

theorem createDockercfgSecretIfNeeded_outdated_snapshot_witness:
  "fst (createDockercfgSecretIfNeeded exampleExternals exampleController 0 outdatedState) = None
   \<and> world (snd (createDockercfgSecretIfNeeded exampleExternals exampleController 0 outdatedState))
       = world outdatedState
   \<and> trace (snd (createDockercfgSecretIfNeeded exampleExternals exampleController 0 outdatedState))
       = [EvServiceAccountsGet ''ns'' ''default'' (Inr (examplePrincipal [''other''] [] ''2''))]"
proof -
  let ?live = "examplePrincipal [''other''] [] ''2''"
  have h1: "getGeneratedDockercfgSecretNames exampleExternals (heap outdatedState 0) = ({}, {})"
    by (simp add: outdatedState_def getGenerated_eq example_simps snapshotState_def examplePrincipal_def)
  have h2: "ServiceAccounts_Get (client exampleController) (sa_Namespace (heap outdatedState 0))
              (sa_Name (heap outdatedState 0)) (world outdatedState) = (Inr ?live, world outdatedState)"
    by (simp add: outdatedState_def example_simps snapshotState_def exampleStore_def
        examplePrincipal_def store_ServiceAccounts_Get_def)
  have h3: "sa_ResourceVersion ?live \<noteq> sa_ResourceVersion (heap outdatedState 0)"
    by (simp add: outdatedState_def snapshotState_def examplePrincipal_def)
  have h4: "0 < nextp outdatedState"
    by (simp add: outdatedState_def snapshotState_def)
  show ?thesis
    using createDockercfgSecretIfNeeded_outdated_snapshot[OF h1 h2 h3 h4]
    by (simp add: outdatedState_def snapshotState_def examplePrincipal_def)
qed

section \<open>What the linker appends\<close>

text \<open>
  C7, as amended: when the classifications agree, the linker appends the bundle name to
  exactly those of the two lists whose set of generated names lacks it, writes the
  fetched principal with these appends (and the fetched version token) back if and only
  if one of the two sets lacked the name, returning the error of that write if there is
  one, and otherwise returns success without a write. For a name that carries the
  generated prefix of the fetched principal, a set of generated names lacks the name
  exactly when the list itself does.
\<close>

theorem createDockerPullSecretReference_links:
  assumes "ServiceAccounts_Get (client e) (sa_Namespace (heap s p)) (sa_Name (heap s p)) (world s)
             = (Inr live, w)"
    and "getGeneratedDockercfgSecretNames x live = (m, i)"
    and "getGeneratedDockercfgSecretNames x (heap s p) = (m, i)"
    and "p < nextp s"
  shows "createDockerPullSecretReference x e p n s =
           (if n \<in> m \<and> n \<in> i
            then (None,
                  s\<lparr>world := w, heap := (heap s)(nextp s := live), nextp := Suc (nextp s),
                    trace := trace s @
                      [EvServiceAccountsGet (sa_Namespace (heap s p)) (sa_Name (heap s p)) (Inr live)]\<rparr>)
            else (case ServiceAccounts_Update (client e) (sa_Namespace live) (linked n m i live) w of
                    (r, w') \<Rightarrow>
                      ((case r of Inl err \<Rightarrow> Some err | Inr v \<Rightarrow> None),
                       s\<lparr>world := w', heap := (heap s)(nextp s := linked n m i live),
                         nextp := Suc (nextp s),
                         trace := trace s @
                           [EvServiceAccountsGet (sa_Namespace (heap s p)) (sa_Name (heap s p)) (Inr live),
                            EvServiceAccountsUpdate (sa_Namespace live) (linked n m i live) r]\<rparr>)))
         \<and> sa_ResourceVersion (linked n m i live) = sa_ResourceVersion live
         \<and> (HasPrefix n (GetDockercfgSecretNamePrefix x live) \<longrightarrow>
              (n \<in> m) = (n \<in> or_Name ` set (sa_Secrets live))
              \<and> (n \<in> i) = (n \<in> lor_Name ` set (sa_ImagePullSecrets live)))"
proof -
  have "(n \<in> m) = (n \<in> or_Name ` set (sa_Secrets live))
        \<and> (n \<in> i) = (n \<in> lor_Name ` set (sa_ImagePullSecrets live))"
    if "HasPrefix n (GetDockercfgSecretNamePrefix x live)"
    using that assms(2) by (auto simp: getGenerated_eq HasPrefix_def)
  then show ?thesis
    using linker_agree[OF assms, of n] by (simp add: afterGet_def linked_def)
qed

theorem createDockerPullSecretReference_links_witness:
  "fst (createDockerPullSecretReference exampleExternals exampleController 0
          ''default-dockercfg-old'' halfLinkedState) = None
   \<and> accounts (world (snd (createDockerPullSecretReference exampleExternals exampleController 0
          ''default-dockercfg-old'' halfLinkedState))) (''ns'', ''default'')
      = Some (examplePrincipal [''default-dockercfg-old''] [''default-dockercfg-old''] ''v1'')"
proof -
  let ?P = "examplePrincipal [] [''default-dockercfg-old''] ''1''"
  have h1: "ServiceAccounts_Get (client exampleController) (sa_Namespace (heap halfLinkedState 0))
              (sa_Name (heap halfLinkedState 0)) (world halfLinkedState) = (Inr ?P, world halfLinkedState)"
    by (simp add: halfLinkedState_def example_simps snapshotState_def exampleStore_def
        examplePrincipal_def store_ServiceAccounts_Get_def)
  have h2: "getGeneratedDockercfgSecretNames exampleExternals ?P = ({}, {''default-dockercfg-old''})"
    by (auto simp: getGenerated_eq example_simps examplePrincipal_def)
  have h3: "getGeneratedDockercfgSecretNames exampleExternals (heap halfLinkedState 0)
              = ({}, {''default-dockercfg-old''})"
    using h2 by (simp add: halfLinkedState_def snapshotState_def)
  have h4: "0 < nextp halfLinkedState"
    by (simp add: halfLinkedState_def snapshotState_def)
  show ?thesis
    using createDockerPullSecretReference_links[OF h1 h2 h3 h4, of "''default-dockercfg-old''"]
    by (simp add: halfLinkedState_def example_simps snapshotState_def exampleStore_def linked_def
        examplePrincipal_def store_ServiceAccounts_Update_def newVersion_def Let_def)
qed

text \<open>
  C7 as stated fails for a name without the generated prefix: both lists of the
  principal already hold \<open>foo\<close>, and the linker appends \<open>foo\<close> to both and writes
  the principal back.
\<close>

theorem createDockerPullSecretReference_duplicate_counterexample:
  "map_option (\<lambda>sa. (sa_Secrets sa, sa_ImagePullSecrets sa))
     (accounts (world (snd (createDockerPullSecretReference exampleExternals exampleController 0
                              ''foo'' foreignNameState))) (''ns'', ''default''))
   = Some ([\<lparr>or_Name = ''foo''\<rparr>, \<lparr>or_Name = ''foo''\<rparr>], [\<lparr>lor_Name = ''foo''\<rparr>, \<lparr>lor_Name = ''foo''\<rparr>])"
  by code_simp

section \<open>Properties of the Token Materializer\<close>

lemma pollToken_step:
  "pollToken x e t i s =
     (if i \<le> tokenSecretWaitTimes
      then (case call_Secrets_Get e (sec_Namespace t) (sec_Name t) s of
              (Inl err2, s1) \<Rightarrow> (Some (Inl err2), s1)
            | (Inr live, s1) \<Rightarrow>
                if tokenOf live \<noteq> [] then (Some (Inr live), s1)
                else pollToken x e t (Suc i) (call_Sleep x s1))
      else (None, s))"
  by (subst pollToken.simps) (simp add: tokenOf_def split: prod.splits sum.splits)

lemma pollToken_rel:
  assumes refl: "\<And>s. R s s"
    and trans: "\<And>a b c. R a b \<Longrightarrow> R b c \<Longrightarrow> R a c"
    and get: "\<And>s. R s (snd (call_Secrets_Get e (sec_Namespace t) (sec_Name t) s))"
    and sleep: "\<And>s. R s (call_Sleep x s)"
  shows "R s (snd (pollToken x e t i s))"
proof (induction "Suc tokenSecretWaitTimes - i" arbitrary: i s)
  case 0
  then have "\<not> i \<le> tokenSecretWaitTimes" by simp
  then show ?case by (subst pollToken_step) (simp add: refl)
next
  case (Suc k)
  then have le: "i \<le> tokenSecretWaitTimes" and k: "k = Suc tokenSecretWaitTimes - Suc i" by simp_all
  obtain r s1 where g: "call_Secrets_Get e (sec_Namespace t) (sec_Name t) s = (r, s1)" by force
  have s1: "R s s1" using get[of s] g by simp
  have "R s1 (snd (pollToken x e t (Suc i) (call_Sleep x s1)))"
    using Suc.hyps(1)[OF k] sleep[of s1] by (blast intro: trans)
  then have "R s (snd (pollToken x e t (Suc i) (call_Sleep x s1)))"
    using s1 by (blast intro: trans)
  then show ?case
    using le g s1 by (subst pollToken_step) (simp split: sum.splits)
qed

lemma pollToken_filled:
  "pollToken x e t i s = (Some (Inr live), s') \<Longrightarrow> tokenOf live \<noteq> []"
proof (induction "Suc tokenSecretWaitTimes - i" arbitrary: i s)
  case 0
  then have "\<not> i \<le> tokenSecretWaitTimes" by simp
  with 0(2) show ?case by (subst (asm) pollToken_step) simp
next
  case (Suc k)
  then have le: "i \<le> tokenSecretWaitTimes" and k: "k = Suc tokenSecretWaitTimes - Suc i" by simp_all
  from Suc.prems le show ?case
    by (subst (asm) pollToken_step) (auto split: prod.splits sum.splits if_splits dest: Suc.hyps(1)[OF k])
qed


lemma sameObjects_refl: "sameObjects s s"
  by (simp add: sameObjects_def)

lemma sameObjects_trans: "sameObjects s s1 \<Longrightarrow> sameObjects s1 s2 \<Longrightarrow> sameObjects s s2"
  by (simp add: sameObjects_def)

lemma sameObjects_calls:
  "sameObjects s (snd (call_Secrets_Create e ns sec s))"
  "sameObjects s (snd (call_Secrets_Get e ns name s))"
  "sameObjects s (snd (call_Secrets_Delete e ns name s))"
  "sameObjects s (snd (call_GenerateName x base s))"
  "sameObjects s (call_Sleep x s)"
  "sameObjects s (HandleError err s)"
  by (simp_all add: sameObjects_def call_Secrets_Create_def call_Secrets_Get_def
      call_Secrets_Delete_def call_GenerateName_def call_Sleep_def HandleError_def emit_def
      split: prod.splits)

lemma pollToken_sameObjects: "sameObjects s (snd (pollToken x e t i s))"
  by (rule pollToken_rel) (auto intro: sameObjects_refl sameObjects_trans sameObjects_calls)

lemma createTokenSecret_rel:
  assumes refl: "\<And>s. R s s"
    and trans: "\<And>a b c. R a b \<Longrightarrow> R b c \<Longrightarrow> R a c"
    and gen: "\<And>s base. R s (snd (call_GenerateName x base s))"
    and create: "\<And>s ns sec. sec_Type sec = SecretTypeServiceAccountToken
                   \<Longrightarrow> R s (snd (call_Secrets_Create e ns sec s))"
    and get: "\<And>s ns name. R s (snd (call_Secrets_Get e ns name s))"
    and delete: "\<And>s ns name. R s (snd (call_Secrets_Delete e ns name s))"
    and sleep: "\<And>s. R s (call_Sleep x s)"
    and handle: "\<And>s err. R s (HandleError err s)"
  shows "R s (snd (createTokenSecret x e p s))"
proof -
  obtain name s0 where g: "call_GenerateName x (GetTokenSecretNamePrefix x (heap s p)) s = (name, s0)"
    by force
  define t where "t = \<lparr>sec_Name = name, sec_Namespace = sa_Namespace (heap s0 p),
             sec_Annotations =
               [ServiceAccountNameKey \<mapsto> sa_Name (heap s0 p),
                ServiceAccountUIDKey \<mapsto> sa_UID (heap s0 p)],
             sec_Type = SecretTypeServiceAccountToken,
             sec_Data = Map.empty\<rparr>"
  obtain r s1 where c: "call_Secrets_Create e (sec_Namespace t) t s0 = (r, s1)" by force
  obtain pr s2 where p: "pollToken x e t 0 s1 = (pr, s2)" by force
  obtain dr s3 where d: "call_Secrets_Delete e (sec_Namespace t) (sec_Name t) s2 = (dr, s3)" by force
  have r0: "R s s0" using gen[of s "GetTokenSecretNamePrefix x (heap s p)"] g by simp
  have "sec_Type t = SecretTypeServiceAccountToken" by (simp add: t_def)
  from create[OF this, of s0 "sec_Namespace t"] have r1: "R s s1" using c r0 by (auto intro: trans)
  have "R s1 s2" using pollToken_rel[of R e t x s1 0, OF refl trans get sleep] p by simp
  then have r2: "R s s2" using r1 by (blast intro: trans)
  have r3: "R s s3" using delete[of s2 "sec_Namespace t" "sec_Name t"] d r2 by (auto intro: trans)
  have r4: "R s (HandleError err s3)" for err using handle[of s3 err] r3 by (blast intro: trans)
  show ?thesis
    using g c p d r1 r2 r3 r4
    by (auto simp: createTokenSecret_def Let_def t_def split: prod.splits sum.splits option.splits)
qed

lemma createTokenSecret_sameObjects: "sameObjects s (snd (createTokenSecret x e p s))"
  by (rule createTokenSecret_rel) (auto intro: sameObjects_refl sameObjects_trans sameObjects_calls)

lemma createTokenSecret_filled:
  "createTokenSecret x e p s = (Inr t, s') \<Longrightarrow> tokenOf t \<noteq> []"
  by (auto simp: createTokenSecret_def Let_def split: prod.splits sum.splits option.splits
      dest: pollToken_filled)





section \<open>Properties of the Credential Bundle Builder\<close>

text \<open>
  C8: for a materialized token, the secret \<open>createDockerPullSecret\<close> passes to
  \<open>Secrets.Create\<close> carries under \<open>.dockercfg\<close> the serialization of the
  one-entry map from the configured registry to the entry with username
  \<open>serviceaccount\<close>, the token as password and email
  \<open>serviceaccount@example.org\<close>; the token is not empty; and the annotations hold
  the principal's name, its UID and the token secret's name.
\<close>

theorem createDockerPullSecret_bundle:
  assumes tok: "createTokenSecret x e p s = (Inr tokenSecret, s1)"
    and gen: "GenerateName x (GetDockercfgSecretNamePrefix x (heap s p)) (world s1) = (name, w2)"
    and cfg: "json_Marshal x
                [dockerURL e \<mapsto>
                   \<lparr>Username = ''serviceaccount'', Password = tokenOf tokenSecret,
                    Email = ''serviceaccount@example.org''\<rparr>] = Inr content"
    and bdl: "bundle =
                \<lparr>sec_Name = name, sec_Namespace = sec_Namespace tokenSecret,
                 sec_Annotations =
                   [ServiceAccountNameKey \<mapsto> sa_Name (heap s p),
                    ServiceAccountUIDKey \<mapsto> sa_UID (heap s p),
                    ServiceAccountTokenSecretNameKey \<mapsto> sec_Name tokenSecret],
                 sec_Type = SecretTypeDockercfg,
                 sec_Data = [DockerConfigKey \<mapsto> content]\<rparr>"
    and create: "Secrets_Create (client e) (sec_Namespace tokenSecret) bundle w2 = (r, w3)"
  shows "createDockerPullSecret x e p s =
           (r, s1\<lparr>world := w3,
                 trace := trace s1 @
                   [EvGenerateName (GetDockercfgSecretNamePrefix x (heap s p)) name,
                    EvSecretsCreate (sec_Namespace tokenSecret) bundle r]\<rparr>)
         \<and> tokenOf tokenSecret \<noteq> []
         \<and> sec_Annotations bundle ServiceAccountNameKey = Some (sa_Name (heap s p))
         \<and> sec_Annotations bundle ServiceAccountUIDKey = Some (sa_UID (heap s p))
         \<and> sec_Annotations bundle ServiceAccountTokenSecretNameKey = Some (sec_Name tokenSecret)
         \<and> sec_Data bundle DockerConfigKey = Some content"
proof -
  have same: "heap s1 = heap s"
    using createTokenSecret_sameObjects[of s x e p] tok by (simp add: sameObjects_def)
  have run: "createDockerPullSecret x e p s =
           (r, s1\<lparr>world := w3,
                 trace := trace s1 @
                   [EvGenerateName (GetDockercfgSecretNamePrefix x (heap s p)) name,
                    EvSecretsCreate (sec_Namespace tokenSecret) bundle r]\<rparr>)"
    using tok gen cfg create unfolding bdl
    by (simp add: createDockerPullSecret_def call_GenerateName_def call_Secrets_Create_def
        emit_def Let_def same tokenOf_def)
  have keys: "sec_Annotations bundle ServiceAccountNameKey = Some (sa_Name (heap s p))"
    "sec_Annotations bundle ServiceAccountUIDKey = Some (sa_UID (heap s p))"
    "sec_Annotations bundle ServiceAccountTokenSecretNameKey = Some (sec_Name tokenSecret)"
    "sec_Data bundle DockerConfigKey = Some content"
    unfolding bdl
    by (simp_all add: ServiceAccountNameKey_def ServiceAccountUIDKey_def
        ServiceAccountTokenSecretNameKey_def)
  from run keys createTokenSecret_filled[OF tok] show ?thesis by simp
qed

lemma happy_token:
  "fst (createTokenSecret exampleExternals exampleController 0 happyState) = Inr filledToken"
  apply (simp add: createTokenSecret_def Let_def happyState_def snapshotState_def exampleStore_def
      examplePrincipal_def example_simps call_GenerateName_def store_GenerateName_def emit_def
      call_Secrets_Create_def store_Secrets_Create_def)
  apply (subst pollToken_step)
  apply (simp add: tokenSecretWaitTimes_def call_Secrets_Get_def example_simps store_Secrets_Get_def
      emit_def tokenOf_def call_Sleep_def store_Sleep_def store_Float64_def tokenController_def
      concurrentWriter_def
      fillToken_def)
  apply (subst pollToken_step)
  apply (simp add: tokenSecretWaitTimes_def call_Secrets_Get_def example_simps store_Secrets_Get_def
      emit_def tokenOf_def call_Sleep_def store_Sleep_def store_Float64_def tokenController_def
      concurrentWriter_def
      fillToken_def filledToken_def exampleToken_def ServiceAccountTokenKey_def)
  done

lemma happy_token_world:
  "suffixes (world (snd (createTokenSecret exampleExternals exampleController 0 happyState))) = [''xyz'']
   \<and> secrets (world (snd (createTokenSecret exampleExternals exampleController 0 happyState)))
        (''ns'', ''default-dockercfg-xyz'') = None"
  apply (simp add: createTokenSecret_def Let_def happyState_def snapshotState_def exampleStore_def
      examplePrincipal_def example_simps call_GenerateName_def store_GenerateName_def emit_def
      call_Secrets_Create_def store_Secrets_Create_def)
  apply (subst (1 2) pollToken_step)
  apply (simp add: tokenSecretWaitTimes_def call_Secrets_Get_def example_simps store_Secrets_Get_def
      emit_def tokenOf_def call_Sleep_def store_Sleep_def store_Float64_def tokenController_def
      concurrentWriter_def
      fillToken_def)
  apply (subst (1 2) pollToken_step)
  apply (simp add: tokenSecretWaitTimes_def call_Secrets_Get_def example_simps store_Secrets_Get_def
      emit_def tokenOf_def call_Sleep_def store_Sleep_def store_Float64_def tokenController_def
      concurrentWriter_def
      fillToken_def filledToken_def exampleToken_def ServiceAccountTokenKey_def)
  done

theorem createDockerPullSecret_bundle_witness:
  "fst (createDockerPullSecret exampleExternals exampleController 0 happyState) = Inr exampleBundle
   \<and> sec_Data exampleBundle DockerConfigKey = Some ''registry.example.com serviceaccount t0ken serviceaccount@example.org''
   \<and> sec_Annotations exampleBundle ServiceAccountTokenSecretNameKey = Some ''default-token-abc''"
proof -
  let ?s1 = "snd (createTokenSecret exampleExternals exampleController 0 happyState)"
  let ?w2 = "(world ?s1)\<lparr>suffixes := []\<rparr>"
  have tok: "createTokenSecret exampleExternals exampleController 0 happyState = (Inr filledToken, ?s1)"
    using happy_token by (simp add: prod_eq_iff)
  have gen: "GenerateName exampleExternals (GetDockercfgSecretNamePrefix exampleExternals (heap happyState 0))
               (world ?s1) = (''default-dockercfg-xyz'', ?w2)"
    using happy_token_world
    by (simp add: example_simps store_GenerateName_def happyState_def snapshotState_def
        examplePrincipal_def)
  have cfg: "json_Marshal exampleExternals
                [dockerURL exampleController \<mapsto>
                   \<lparr>Username = ''serviceaccount'', Password = tokenOf filledToken,
                    Email = ''serviceaccount@example.org''\<rparr>] = Inr ''registry.example.com serviceaccount t0ken serviceaccount@example.org''"
    by (simp add: example_simps exampleMarshal_def tokenOf_def filledToken_def)
  have bdl: "exampleBundle =
                \<lparr>sec_Name = ''default-dockercfg-xyz'', sec_Namespace = sec_Namespace filledToken,
                 sec_Annotations =
                   [ServiceAccountNameKey \<mapsto> sa_Name (heap happyState 0),
                    ServiceAccountUIDKey \<mapsto> sa_UID (heap happyState 0),
                    ServiceAccountTokenSecretNameKey \<mapsto> sec_Name filledToken],
                 sec_Type = SecretTypeDockercfg,
                 sec_Data =
                   [DockerConfigKey \<mapsto> ''registry.example.com serviceaccount t0ken serviceaccount@example.org'']\<rparr>"
    by (simp add: exampleBundle_def filledToken_def exampleToken_def happyState_def
        snapshotState_def examplePrincipal_def)
  have create: "Secrets_Create (client exampleController) (sec_Namespace filledToken) exampleBundle ?w2
                  = (Inr exampleBundle,
                     ?w2\<lparr>secrets := (secrets ?w2)((''ns'', ''default-dockercfg-xyz'') \<mapsto> exampleBundle)\<rparr>)"
    using happy_token_world
    by (simp add: example_simps store_Secrets_Create_def filledToken_def exampleToken_def
        exampleBundle_def)
  show ?thesis
    using createDockerPullSecret_bundle[OF tok gen cfg bdl create]
    by (simp add: filledToken_def exampleToken_def)
qed

section \<open>Properties of the Reconciler: a bundle that cannot be linked\<close>

text \<open>
  C5: on the both-empty path, when the bundle has been created and the linker returns a
  Conflict, the reconciler deletes that bundle and returns success; the error of the
  delete is reported to the error sink unless it is nil or NotFound, and does not change
  the result.
\<close>

theorem createDockercfgSecretIfNeeded_link_conflict:
  assumes cls: "getGeneratedDockercfgSecretNames x (heap s p) = ({}, {})"
    and get: "ServiceAccounts_Get (client e) (sa_Namespace (heap s p)) (sa_Name (heap s p)) (world s)
                = (Inr live, w)"
    and ver: "sa_ResourceVersion live = sa_ResourceVersion (heap s p)"
    and old: "p < nextp s"
    and s1: "s1 = s\<lparr>world := w, heap := (heap s)(nextp s := live), nextp := Suc (nextp s),
                    trace := trace s @
                      [EvServiceAccountsGet (sa_Namespace (heap s p)) (sa_Name (heap s p)) (Inr live)]\<rparr>"
    and build: "createDockerPullSecret x e p s1 = (Inr dockercfgSecret, s2)"
    and link: "createDockerPullSecretReference x e p (sec_Name dockercfgSecret) s2 = (err, s3)"
    and conflict: "IsConflict err"
    and del: "Secrets_Delete (client e) (sec_Namespace dockercfgSecret) (sec_Name dockercfgSecret) (world s3)
                = (derr, w4)"
  shows "createDockercfgSecretIfNeeded x e p s =
           (None,
            s3\<lparr>world := w4,
               trace := trace s3 @
                 EvSecretsDelete (sec_Namespace dockercfgSecret) (sec_Name dockercfgSecret) derr
                 # (if derr \<noteq> None \<and> \<not> IsNotFound derr then [EvHandleError (the derr)] else [])\<rparr>)"
proof -
  from old have pne: "p \<noteq> nextp s" by simp
  have g: "call_ServiceAccounts_Get e (sa_Namespace (heap s p)) (sa_Name (heap s p)) s = (Inr (nextp s), s1)"
    using get by (simp add: call_ServiceAccounts_Get_def emit_def s1)
  have h: "heap s1 (nextp s) = live" "heap s1 p = heap s p"
    using pne by (simp_all add: s1)
  show ?thesis
    using cls g h ver build link conflict del
    by (simp add: createDockercfgSecretIfNeeded_def call_Secrets_Delete_def
        HandleError_def emit_def)
qed

theorem createDockercfgSecretIfNeeded_link_conflict_witness:
  "fst (createDockercfgSecretIfNeeded exampleExternals exampleController 0 raceState) = None
   \<and> secrets (world (snd (createDockercfgSecretIfNeeded exampleExternals exampleController 0 raceState)))
        (''ns'', ''default-dockercfg-xyz'') = None
   \<and> map_option sa_ResourceVersion
        (accounts (world (snd (createDockercfgSecretIfNeeded exampleExternals exampleController 0 raceState)))
           (''ns'', ''default'')) = Some ''2''"
proof -
  let ?X = exampleExternals and ?E = exampleController and ?S = raceState
  let ?P = "examplePrincipal [] [] ''1''"
  let ?s1 = "?S\<lparr>world := world ?S, heap := (heap ?S)(nextp ?S := ?P), nextp := Suc (nextp ?S),
                trace := trace ?S @
                  [EvServiceAccountsGet (sa_Namespace (heap ?S 0)) (sa_Name (heap ?S 0)) (Inr ?P)]\<rparr>"
  let ?B = "projr (fst (createDockerPullSecret ?X ?E 0 ?s1))"
  let ?s2 = "snd (createDockerPullSecret ?X ?E 0 ?s1)"
  let ?L = "createDockerPullSecretReference ?X ?E 0 (sec_Name ?B) ?s2"
  let ?D = "Secrets_Delete (client ?E) (sec_Namespace ?B) (sec_Name ?B) (world (snd ?L))"
  have cls: "getGeneratedDockercfgSecretNames ?X (heap ?S 0) = ({}, {})"
    by (simp add: raceState_def getGenerated_eq example_simps snapshotState_def examplePrincipal_def)
  have get: "ServiceAccounts_Get (client ?E) (sa_Namespace (heap ?S 0)) (sa_Name (heap ?S 0)) (world ?S)
               = (Inr ?P, world ?S)"
    by (simp add: raceState_def example_simps snapshotState_def exampleStore_def
        examplePrincipal_def store_ServiceAccounts_Get_def)
  have ver: "sa_ResourceVersion ?P = sa_ResourceVersion (heap ?S 0)"
    by (simp add: raceState_def snapshotState_def)
  have old: "0 < nextp ?S"
    by (simp add: raceState_def snapshotState_def)
  have "\<not> isl (fst (createDockerPullSecret ?X ?E 0 ?s1))"
    by code_simp
  then have build: "createDockerPullSecret ?X ?E 0 ?s1 = (Inr ?B, ?s2)"
    by (simp add: prod_eq_iff)
  have link: "?L = (fst ?L, snd ?L)"
    by simp
  have conflict: "IsConflict (fst ?L)"
    by code_simp
  have del: "?D = (fst ?D, snd ?D)"
    by simp
  have gone: "Option.is_none (secrets (snd ?D) (''ns'', ''default-dockercfg-xyz''))"
    by code_simp
  have ver2: "map_option sa_ResourceVersion (accounts (snd ?D) (''ns'', ''default'')) = Some ''2''"
    by code_simp
  show ?thesis
    using createDockercfgSecretIfNeeded_link_conflict[OF cls get ver old refl build link conflict del]
      gone ver2
    by (simp add: Option.is_none_def)
qed

section \<open>The objects the controller writes to\<close>

lemma objectsKept_refl: "objectsKept s s"
  by (simp add: objectsKept_def)

lemma objectsKept_trans: "objectsKept a b \<Longrightarrow> objectsKept b c \<Longrightarrow> objectsKept a c"
  by (auto simp: objectsKept_def)

lemma sameObjects_kept: "sameObjects s s' \<Longrightarrow> objectsKept s s'"
  by (simp add: objectsKept_def sameObjects_def)

lemma createDockerPullSecret_rel:
  assumes refl: "\<And>s. R s s"
    and trans: "\<And>a b c. R a b \<Longrightarrow> R b c \<Longrightarrow> R a c"
    and gen: "\<And>s base. R s (snd (call_GenerateName x base s))"
    and create: "\<And>s ns sec. R s (snd (call_Secrets_Create e ns sec s))"
    and get: "\<And>s ns name. R s (snd (call_Secrets_Get e ns name s))"
    and delete: "\<And>s ns name. R s (snd (call_Secrets_Delete e ns name s))"
    and sleep: "\<And>s. R s (call_Sleep x s)"
    and handle: "\<And>s err. R s (HandleError err s)"
  shows "R s (snd (createDockerPullSecret x e p s))"
proof -
  obtain r s1 where t: "createTokenSecret x e p s = (r, s1)" by force
  have r1: "R s s1"
    using createTokenSecret_rel[of R x e s p, OF refl trans gen create get delete sleep handle] t
    by simp
  obtain name s2 where g: "call_GenerateName x (GetDockercfgSecretNamePrefix x (heap s1 p)) s1 = (name, s2)"
    by force
  have r2: "R s s2" using gen[of s1 "GetDockercfgSecretNamePrefix x (heap s1 p)"] g r1
    by (auto intro: trans)
  have r3: "R s (snd (call_Secrets_Create e ns sec s2))" for ns sec
    using create[of s2 ns sec] r2 by (blast intro: trans)
  show ?thesis
    using t g r1 r2 r3
    by (auto simp: createDockerPullSecret_def Let_def split: prod.splits sum.splits)
qed

lemma createDockerPullSecret_sameObjects: "sameObjects s (snd (createDockerPullSecret x e p s))"
  by (rule createDockerPullSecret_rel) (auto intro: sameObjects_refl sameObjects_trans sameObjects_calls)

lemma linker_objectsKept: "objectsKept s (snd (createDockerPullSecretReference x e p n s))"
  by (auto simp: objectsKept_def createDockerPullSecretReference_def call_ServiceAccounts_Get_def
      emit_def call_ServiceAccounts_Update_def appendSecret_def appendImagePullSecret_def Let_def
      split: prod.splits sum.splits)

lemma call_Get_objectsKept: "objectsKept s (snd (call_ServiceAccounts_Get e ns name s))"
  by (auto simp: objectsKept_def call_ServiceAccounts_Get_def emit_def split: prod.splits sum.splits)

lemma reconcile_objectsKept: "objectsKept s (snd (createDockercfgSecretIfNeeded x e p s))"
proof -
  obtain m i where cls: "getGeneratedDockercfgSecretNames x (heap s p) = (m, i)" by force
  have link: "objectsKept s (snd (case createDockerPullSecretReference x e p n s of
                 (err, s1) \<Rightarrow> if IsConflict err then (None, s1) else (err, s1)))" for n
    using linker_objectsKept[of s x e p n] by (auto split: prod.splits)
  obtain g s1 where get: "call_ServiceAccounts_Get e (sa_Namespace (heap s p)) (sa_Name (heap s p)) s = (g, s1)"
    by force
  have k1: "objectsKept s s1"
    using call_Get_objectsKept[of s e "sa_Namespace (heap s p)" "sa_Name (heap s p)"] get by simp
  obtain b s2 where build: "createDockerPullSecret x e p s1 = (b, s2)" by force
  have k2: "objectsKept s s2"
    using createDockerPullSecret_sameObjects[of s1 x e p] build k1
    by (auto dest: sameObjects_kept intro: objectsKept_trans)
  have create: "objectsKept s (snd (case g of Inl err \<Rightarrow> (Some err, s1)
            | Inr liveServiceAccount \<Rightarrow>
                if sa_ResourceVersion (heap s1 liveServiceAccount) \<noteq> sa_ResourceVersion (heap s1 p)
                then (None, s1)
                else
                  (case createDockerPullSecret x e p s1 of
                     (Inl err, s2) \<Rightarrow> (Some err, s2)
                   | (Inr dockercfgSecret, s2) \<Rightarrow>
                       (case createDockerPullSecretReference x e p (sec_Name dockercfgSecret) s2 of
                          (err, s3) \<Rightarrow>
                            if IsConflict err
                            then (case call_Secrets_Delete e (sec_Namespace dockercfgSecret)
                                         (sec_Name dockercfgSecret) s3 of
                                    (derr, s4) \<Rightarrow>
                                      (None,
                                       (if derr \<noteq> None \<and> \<not> IsNotFound derr
                                        then HandleError (the derr) s4 else s4)))
                            else (err, s3)))))"
  proof (cases g)
    case (Inl err)
    then show ?thesis using k1 by simp
  next
    case (Inr live)
    show ?thesis
    proof (cases b)
      case (Inl err)
      then show ?thesis using Inr build k1 k2 by simp
    next
      case ok: (Inr sec)
      obtain err s3 where l: "createDockerPullSecretReference x e p (sec_Name sec) s2 = (err, s3)"
        by force
      have k3: "objectsKept s s3"
        using linker_objectsKept[of s2 x e p "sec_Name sec"] l k2 by (auto intro: objectsKept_trans)
      obtain derr s4 where d: "call_Secrets_Delete e (sec_Namespace sec) (sec_Name sec) s3 = (derr, s4)"
        by force
      have k4: "objectsKept s s4"
        using sameObjects_calls(3)[of s3 e "sec_Namespace sec" "sec_Name sec"] d k3
        by (auto dest!: sameObjects_kept intro: objectsKept_trans)
      have k5: "objectsKept s (HandleError (the derr) s4)"
        using sameObjects_calls(6)[of s4 "the derr"] k4
        by (auto dest!: sameObjects_kept intro: objectsKept_trans)
      show ?thesis
        using Inr ok build l d k1 k3 k4 k5 by simp
    qed
  qed
  show ?thesis
    unfolding createDockercfgSecretIfNeeded_def cls get Let_def prod.case
    using link create objectsKept_refl[of s]
    by (simp split: list.splits)
qed

text \<open>
  C10: neither the reconciler nor the linker changes a service account object that exists
  when it is called, the snapshot it is given among them: the appends go to the object
  the client has just returned, which is a new one.
\<close>

theorem snapshot_never_mutated:
  assumes "q < nextp s"
  shows "heap (snd (createDockercfgSecretIfNeeded x e p s)) q = heap s q
         \<and> heap (snd (createDockerPullSecretReference x e p n s)) q = heap s q"
  using assms reconcile_objectsKept[of s x e p] linker_objectsKept[of s x e p n]
  by (simp add: objectsKept_def)

theorem snapshot_never_mutated_witness:
  "heap (snd (createDockercfgSecretIfNeeded exampleExternals exampleController 0 halfLinkedState)) 0
     = examplePrincipal [] [''default-dockercfg-old''] ''1''
   \<and> heap (snd (createDockerPullSecretReference exampleExternals exampleController 0
                   ''default-dockercfg-old'' halfLinkedState)) 0
     = examplePrincipal [] [''default-dockercfg-old''] ''1''"
proof -
  have h: "0 < nextp halfLinkedState"
    by (simp add: halfLinkedState_def snapshotState_def)
  show ?thesis
    using snapshot_never_mutated[OF h, of exampleExternals exampleController 0 "''default-dockercfg-old''"]
    by (simp add: halfLinkedState_def snapshotState_def)
qed

section \<open>Two reconciliations in succession on the sequential store\<close>

lemma bundlesCreated_append: "bundlesCreated (a @ b) = bundlesCreated a + bundlesCreated b"
  by (simp add: bundlesCreated_def)

lemma quiet_refl: "quiet s s"
  by (simp add: quiet_def)

lemma quiet_trans: "quiet a b \<Longrightarrow> quiet b c \<Longrightarrow> quiet a c"
  by (auto simp: quiet_def)

lemma quiet_calls:
  assumes "client e = storeClient"
  shows "quiet s (snd (call_Secrets_Create e ns sec s))"
    "quiet s (snd (call_Secrets_Get e ns name s))"
    "quiet s (snd (call_Secrets_Delete e ns name s))"
    "quiet s (snd (call_GenerateName (storeExternals dp tp mar) base s))"
    "quiet s (call_Sleep (storeExternals dp tp mar) s)"
    "quiet s (HandleError err s)"
  using assms
  by (auto simp: quiet_def call_Secrets_Create_def call_Secrets_Get_def call_Secrets_Delete_def
      call_GenerateName_def call_Sleep_def HandleError_def emit_def storeClient_def
      storeExternals_def store_Secrets_Create_def store_Secrets_Get_def store_Secrets_Delete_def
      store_GenerateName_def store_Sleep_def store_Float64_def tokenController_def
      concurrentWriter_def
      split: option.splits list.splits nat.splits)

lemma build_quiet:
  "client e = storeClient \<Longrightarrow> quiet s (snd (createDockerPullSecret (storeExternals dp tp mar) e p s))"
  by (rule createDockerPullSecret_rel) (auto intro: quiet_refl quiet_trans quiet_calls)

lemma noBundle_refl: "noBundle s s"
  by (simp add: noBundle_def bundlesCreated_def)

lemma noBundle_trans: "noBundle a b \<Longrightarrow> noBundle b c \<Longrightarrow> noBundle a c"
  by (auto simp: noBundle_def bundlesCreated_append)

lemma token_type_not_bundle: "SecretTypeServiceAccountToken \<noteq> SecretTypeDockercfg"
  by (simp add: SecretTypeServiceAccountToken_def SecretTypeDockercfg_def)

lemma isBundleCreated_create:
  "isBundleCreated (EvSecretsCreate ns sec r) = (\<not> isl r \<and> sec_Type sec = SecretTypeDockercfg)"
  by (cases r) simp_all

lemma noBundle_calls:
  "sec_Type sec = SecretTypeServiceAccountToken \<Longrightarrow> noBundle s (snd (call_Secrets_Create e ns sec s))"
  "noBundle s (snd (call_Secrets_Get e ns name s))"
  "noBundle s (snd (call_Secrets_Delete e ns name s))"
  "noBundle s (snd (call_GenerateName x base s))"
  "noBundle s (call_Sleep x s)"
  "noBundle s (HandleError err s)"
  by (auto simp: noBundle_def bundlesCreated_def call_Secrets_Create_def call_Secrets_Get_def
      call_Secrets_Delete_def call_GenerateName_def call_Sleep_def HandleError_def emit_def
      token_type_not_bundle isBundleCreated_create split: prod.splits)

lemma token_noBundle: "noBundle s (snd (createTokenSecret x e p s))"
  by (rule createTokenSecret_rel) (auto intro: noBundle_refl noBundle_trans noBundle_calls)

lemma build_trace:
  assumes "createDockerPullSecret x e p s = (r, s')"
  shows "\<exists>evs. trace s' = trace s @ evs \<and> bundlesCreated evs = (if isl r then 0 else 1)"
proof -
  obtain tr s1 where t: "createTokenSecret x e p s = (tr, s1)" by force
  from token_noBundle[of s x e p] t obtain evs1 where
    e1: "trace s1 = trace s @ evs1" "bundlesCreated evs1 = 0"
    by (auto simp: noBundle_def)
  show ?thesis
    using assms t e1
    by (auto simp: createDockerPullSecret_def Let_def call_GenerateName_def
        call_Secrets_Create_def emit_def bundlesCreated_def isBundleCreated_create
        split: prod.splits sum.splits)
qed

lemma build_name:
  assumes cl: "client e = storeClient"
    and run: "createDockerPullSecret (storeExternals dp tp mar) e p s = (Inr sec, s')"
  shows "HasPrefix (sec_Name sec) (dp (sa_Namespace (heap s p)) (sa_Name (heap s p)))"
proof -
  let ?x = "storeExternals dp tp mar"
  obtain tr s1 where t: "createTokenSecret ?x e p s = (tr, s1)" by force
  have same: "heap s1 = heap s"
    using createTokenSecret_sameObjects[of s ?x e p] t by (simp add: sameObjects_def)
  show ?thesis
    using run t same cl
    by (auto simp: createDockerPullSecret_def Let_def call_GenerateName_def call_Secrets_Create_def
        emit_def storeExternals_def storeClient_def store_Secrets_Create_def store_GenerateName_def
        HasPrefix_def
        split: prod.splits sum.splits option.splits list.splits)
qed

lemma store_prefix:
  "GetDockercfgSecretNamePrefix (storeExternals dp tp mar) sa = dp (sa_Namespace sa) (sa_Name sa)"
  by (simp add: storeExternals_def)

lemma linker_seq:
  assumes cl: "client e = storeClient"
    and ok: "settled s p"
    and cls: "getGeneratedDockercfgSecretNames x (heap s p) = (m, i)"
    and miss: "\<not> (n \<in> m \<and> n \<in> i)"
  shows "createDockerPullSecretReference x e p n s =
           (None,
            s\<lparr>world := (world s)\<lparr>accounts := (accounts (world s))
                          ((sa_Namespace (heap s p), sa_Name (heap s p)) \<mapsto> relinked n m i (heap s p))\<rparr>,
              heap := (heap s)(nextp s := linked n m i (heap s p)),
              nextp := Suc (nextp s),
              trace := trace s @
                [EvServiceAccountsGet (sa_Namespace (heap s p)) (sa_Name (heap s p)) (Inr (heap s p)),
                 EvServiceAccountsUpdate (sa_Namespace (heap s p)) (linked n m i (heap s p))
                   (Inr (relinked n m i (heap s p)))]\<rparr>)"
proof -
  from ok have old: "p < nextp s"
    and stored: "accounts (world s) (sa_Namespace (heap s p), sa_Name (heap s p)) = Some (heap s p)"
    by (simp_all add: settled_def)
  have get: "ServiceAccounts_Get (client e) (sa_Namespace (heap s p)) (sa_Name (heap s p)) (world s)
               = (Inr (heap s p), world s)"
    using stored by (simp add: cl storeClient_def store_ServiceAccounts_Get_def)
  have upd: "ServiceAccounts_Update (client e) (sa_Namespace (heap s p)) (linked n m i (heap s p)) (world s)
               = (Inr (relinked n m i (heap s p)),
                  (world s)\<lparr>accounts := (accounts (world s))
                          ((sa_Namespace (heap s p), sa_Name (heap s p)) \<mapsto> relinked n m i (heap s p))\<rparr>)"
    using stored
    by (simp add: cl storeClient_def store_ServiceAccounts_Update_def linked_def relinked_def Let_def)
  show ?thesis
    using linker_agree[OF get cls cls old, of n] miss upd by simp
qed

lemma relinked_classified:
  assumes cls: "getGeneratedDockercfgSecretNames (storeExternals dp tp mar) sa = (m, i)"
    and pre: "HasPrefix n (dp (sa_Namespace sa) (sa_Name sa))"
    and miss: "\<not> (n \<in> m \<and> n \<in> i)"
  shows "getGeneratedDockercfgSecretNames (storeExternals dp tp mar) (relinked n m i sa) \<noteq> (m, i)"
proof -
  have m: "m = {k \<in> or_Name ` set (sa_Secrets sa). prefix (dp (sa_Namespace sa) (sa_Name sa)) k}"
    and i: "i = {k \<in> lor_Name ` set (sa_ImagePullSecrets sa). prefix (dp (sa_Namespace sa) (sa_Name sa)) k}"
    using cls by (simp_all add: getGenerated_eq store_prefix)
  show ?thesis
  proof (cases "n \<in> m")
    case False
    then have "n \<in> fst (getGeneratedDockercfgSecretNames (storeExternals dp tp mar) (relinked n m i sa))"
      using pre by (simp add: getGenerated_eq store_prefix relinked_def linked_def HasPrefix_def)
    with False show ?thesis by auto
  next
    case True
    with miss have "n \<notin> i" by simp
    then have "n \<in> snd (getGeneratedDockercfgSecretNames (storeExternals dp tp mar) (relinked n m i sa))"
      using pre by (simp add: getGenerated_eq store_prefix relinked_def linked_def HasPrefix_def)
    with \<open>n \<notin> i\<close> show ?thesis by auto
  qed
qed

lemma relinked_distinct:
  assumes cls: "getGeneratedDockercfgSecretNames (storeExternals dp tp mar) sa = (m, i)"
    and pre: "HasPrefix n (dp (sa_Namespace sa) (sa_Name sa))"
  shows "distinct (map or_Name (sa_Secrets sa)) \<Longrightarrow> distinct (map or_Name (sa_Secrets (relinked n m i sa)))"
    and "distinct (map lor_Name (sa_ImagePullSecrets sa))
           \<Longrightarrow> distinct (map lor_Name (sa_ImagePullSecrets (relinked n m i sa)))"
  using cls pre
  by (auto simp: getGenerated_eq store_prefix relinked_def linked_def HasPrefix_def)

lemma newVersion_differs: "newVersion v \<noteq> v"
  by (simp add: newVersion_def)

lemma reconcile_after_link:
  assumes cl: "client e = storeClient"
    and x: "x = storeExternals dp tp mar"
    and old: "p < nextp s"
    and cls: "getGeneratedDockercfgSecretNames x (heap s p) = (m, i)"
    and stored: "accounts (world s) (sa_Namespace (heap s p), sa_Name (heap s p))
                   = Some (relinked n m i (heap s p))"
    and pre: "HasPrefix n (dp (sa_Namespace (heap s p)) (sa_Name (heap s p)))"
    and miss: "\<not> (n \<in> m \<and> n \<in> i)"
    and part: "m = {} \<or> i = {}"
  shows "createDockercfgSecretIfNeeded x e p s =
           (None, afterGet s (sa_Namespace (heap s p)) (sa_Name (heap s p))
                    (relinked n m i (heap s p)) (world s))"
proof -
  let ?live = "relinked n m i (heap s p)"
  have get: "ServiceAccounts_Get (client e) (sa_Namespace (heap s p)) (sa_Name (heap s p)) (world s)
               = (Inr ?live, world s)"
    using stored by (simp add: cl storeClient_def store_ServiceAccounts_Get_def)
  from old have pne: "p \<noteq> nextp s" by simp
  show ?thesis
  proof (cases "m = {} \<and> i = {}")
    case True
    have "sa_ResourceVersion ?live \<noteq> sa_ResourceVersion (heap s p)"
      by (simp add: relinked_def newVersion_differs)
    then show ?thesis
      using cls True get pne
      by (simp add: createDockercfgSecretIfNeeded_def call_ServiceAccounts_Get_def
          emit_def afterGet_def)
  next
    case False
    with part have one: "(m = {}) \<noteq> (i = {})" by auto
    have differ: "getGeneratedDockercfgSecretNames x ?live \<noteq> getGeneratedDockercfgSecretNames x (heap s p)"
      using relinked_classified[OF cls[unfolded x] pre miss] cls by (simp add: x)
    define k where "k = Min (if i \<noteq> {} then i else m)"
    from linker_differ[OF get differ old, of k] obtain err where
      l: "createDockerPullSecretReference x e p k s =
            (Some err, afterGet s (sa_Namespace (heap s p)) (sa_Name (heap s p)) ?live (world s))"
      and c: "IsConflict (Some err)"
      by blast
    show ?thesis
      unfolding reconcile_one_sided[OF cls one] k_def[symmetric] using l c by simp
  qed
qed

lemma bundlesCreated_sa_events:
  "bundlesCreated [EvServiceAccountsGet ns name r] = 0"
  "bundlesCreated [EvServiceAccountsGet ns name r, EvServiceAccountsUpdate ns' sa r'] = 0"
  by (simp_all add: bundlesCreated_def)

lemma reconcile_seq:
  assumes cl: "client e = storeClient"
    and x: "x = storeExternals dp tp mar"
    and ok: "settled s p"
    and cls: "getGeneratedDockercfgSecretNames x (heap s p) = (m, i)"
    and run: "createDockercfgSecretIfNeeded x e p s = (r, s1)"
  shows "(m \<noteq> {} \<and> i \<noteq> {} \<and> r = None \<and> s1 = s)
       \<or> (\<exists>n evs. HasPrefix n (dp (sa_Namespace (heap s p)) (sa_Name (heap s p)))
              \<and> \<not> (n \<in> m \<and> n \<in> i) \<and> (m = {} \<or> i = {}) \<and> r = None
              \<and> accounts (world s1) = (accounts (world s))
                   ((sa_Namespace (heap s p), sa_Name (heap s p)) \<mapsto> relinked n m i (heap s p))
              \<and> secrets (world s1) = secrets (world s) \<and> evs \<noteq> []
              \<and> writers (world s1) = [] \<and> trace s1 = trace s @ evs \<and> bundlesCreated evs = 0
            \<or> HasPrefix n (dp (sa_Namespace (heap s p)) (sa_Name (heap s p)))
              \<and> m = {} \<and> i = {} \<and> r = None
              \<and> accounts (world s1) = (accounts (world s))
                   ((sa_Namespace (heap s p), sa_Name (heap s p)) \<mapsto> relinked n m i (heap s p))
              \<and> writers (world s1) = [] \<and> trace s1 = trace s @ evs \<and> bundlesCreated evs = 1)
       \<or> (\<exists>evs. r \<noteq> None \<and> accounts (world s1) = accounts (world s) \<and> writers (world s1) = []
              \<and> trace s1 = trace s @ evs \<and> bundlesCreated evs = 0)"
proof -
  let ?sa = "heap s p"
  let ?ns = "sa_Namespace ?sa" and ?name = "sa_Name ?sa"
  from ok have old: "p < nextp s" and seq: "writers (world s) = []"
    and stored: "accounts (world s) (?ns, ?name) = Some ?sa"
    by (simp_all add: settled_def)
  have fin: "finite m" "finite i"
    using finite_getGenerated[of x ?sa] cls by simp_all
  have pre: "HasPrefix k (dp ?ns ?name)" if "k \<in> m \<or> k \<in> i" for k
    using that cls by (auto simp: x getGenerated_eq store_prefix HasPrefix_def)
  consider (both) "m \<noteq> {}" "i \<noteq> {}" | (one) "(m = {}) \<noteq> (i = {})" | (none) "m = {}" "i = {}"
    by blast
  then show ?thesis
  proof cases
    case both
    then have "createDockercfgSecretIfNeeded x e p s = (None, s)"
      using cls fin by (simp add: createDockercfgSecretIfNeeded_def card_gt_0_iff Let_def)
    with run both show ?thesis by simp
  next
    case one
    define n where "n = Min (if i \<noteq> {} then i else m)"
    have nin: "n \<in> m \<or> n \<in> i" and miss: "\<not> (n \<in> m \<and> n \<in> i)"
      using one fin by (auto simp: n_def intro: Min_in)
    from linker_seq[OF cl ok cls miss] run
    have "r = None" and s1: "s1 =
            s\<lparr>world := (world s)\<lparr>accounts := (accounts (world s))((?ns, ?name) \<mapsto> relinked n m i ?sa)\<rparr>,
              heap := (heap s)(nextp s := linked n m i ?sa),
              nextp := Suc (nextp s),
              trace := trace s @
                [EvServiceAccountsGet ?ns ?name (Inr ?sa),
                 EvServiceAccountsUpdate ?ns (linked n m i ?sa) (Inr (relinked n m i ?sa))]\<rparr>"
      by (simp_all add: reconcile_one_sided[OF cls one] n_def[symmetric] IsConflict_def)
    have "HasPrefix n (dp ?ns ?name) \<and> \<not> (n \<in> m \<and> n \<in> i) \<and> (m = {} \<or> i = {}) \<and> r = None
              \<and> accounts (world s1) = (accounts (world s))((?ns, ?name) \<mapsto> relinked n m i ?sa)
              \<and> secrets (world s1) = secrets (world s)
              \<and> [EvServiceAccountsGet ?ns ?name (Inr ?sa),
                  EvServiceAccountsUpdate ?ns (linked n m i ?sa) (Inr (relinked n m i ?sa))] \<noteq> []
              \<and> writers (world s1) = []
              \<and> trace s1 = trace s @ [EvServiceAccountsGet ?ns ?name (Inr ?sa),
                 EvServiceAccountsUpdate ?ns (linked n m i ?sa) (Inr (relinked n m i ?sa))]
              \<and> bundlesCreated [EvServiceAccountsGet ?ns ?name (Inr ?sa),
                 EvServiceAccountsUpdate ?ns (linked n m i ?sa) (Inr (relinked n m i ?sa))] = 0"
      using pre[OF nin] miss one \<open>r = None\<close> seq by (auto simp: s1 bundlesCreated_sa_events)
    then show ?thesis by blast
  next
    case none
    let ?sA = "afterGet s ?ns ?name ?sa (world s)"
    from old have pne: "p \<noteq> nextp s" by simp
    have get: "call_ServiceAccounts_Get e ?ns ?name s = (Inr (nextp s), ?sA)"
      using stored
      by (simp add: call_ServiceAccounts_Get_def cl storeClient_def store_ServiceAccounts_Get_def
          emit_def afterGet_def)
    have hA: "heap ?sA (nextp s) = ?sa" "heap ?sA p = ?sa" "world ?sA = world s"
      "trace ?sA = trace s @ [EvServiceAccountsGet ?ns ?name (Inr ?sa)]" "nextp ?sA = Suc (nextp s)"
      using pne by (simp_all add: afterGet_def)
    obtain b s2 where build: "createDockerPullSecret x e p ?sA = (b, s2)" by force
    have step: "createDockercfgSecretIfNeeded x e p s =
                  (case b of Inl err \<Rightarrow> (Some err, s2)
                   | Inr sec \<Rightarrow>
                       (case createDockerPullSecretReference x e p (sec_Name sec) s2 of
                          (err, s3) \<Rightarrow>
                            if IsConflict err
                            then (case call_Secrets_Delete e (sec_Namespace sec) (sec_Name sec) s3 of
                                    (derr, s4) \<Rightarrow>
                                      (None, (if derr \<noteq> None \<and> \<not> IsNotFound derr
                                              then HandleError (the derr) s4 else s4)))
                            else (err, s3)))"
      using cls none get hA(1,2) build
      by (simp add: createDockercfgSecretIfNeeded_def split: sum.splits)
    have q: "writers (world s2) = []" "accounts (world s2) = accounts (world s)"
      using build_quiet[OF cl, of ?sA dp tp mar p] build seq hA(3) by (simp_all add: x quiet_def)
    have same: "heap s2 = heap ?sA" "nextp s2 = nextp ?sA"
      using createDockerPullSecret_sameObjects[of ?sA x e p] build by (simp_all add: sameObjects_def)
    from build_trace[OF build] obtain evs where
      evs: "trace s2 = trace ?sA @ evs" "bundlesCreated evs = (if isl b then 0 else 1)"
      by blast
    show ?thesis
    proof (cases b)
      case (Inl err)
      with step run have "r = Some err" "s1 = s2" by simp_all
      then have "r \<noteq> None \<and> accounts (world s1) = accounts (world s) \<and> writers (world s1) = []
              \<and> trace s1 = trace s @ (EvServiceAccountsGet ?ns ?name (Inr ?sa) # evs)
              \<and> bundlesCreated (EvServiceAccountsGet ?ns ?name (Inr ?sa) # evs) = 0"
        using q evs Inl hA(4) by (simp add: bundlesCreated_def)
      then show ?thesis by blast
    next
      case (Inr sec)
      let ?n = "sec_Name sec"
      have h2: "heap s2 p = ?sa" using same hA(2) by simp
      have ok2: "settled s2 p"
        using old q stored same hA(5) h2 by (simp add: settled_def)
      have cls2: "getGeneratedDockercfgSecretNames x (heap s2 p) = (m, i)"
        using cls h2 by simp
      have miss: "\<not> (?n \<in> m \<and> ?n \<in> i)" using none by simp
      have npre: "HasPrefix ?n (dp ?ns ?name)"
        using build_name[OF cl build[unfolded x Inr]] hA(2) by simp
      note l = linker_seq[OF cl ok2 cls2 miss]
      from step run Inr l have "r = None" and s1: "s1 =
            s2\<lparr>world := (world s2)\<lparr>accounts := (accounts (world s2))((?ns, ?name) \<mapsto> relinked ?n m i ?sa)\<rparr>,
              heap := (heap s2)(nextp s2 := linked ?n m i ?sa),
              nextp := Suc (nextp s2),
              trace := trace s2 @
                [EvServiceAccountsGet ?ns ?name (Inr ?sa),
                 EvServiceAccountsUpdate ?ns (linked ?n m i ?sa) (Inr (relinked ?n m i ?sa))]\<rparr>"
        by (simp_all add: h2 IsConflict_def)
      let ?evs = "EvServiceAccountsGet ?ns ?name (Inr ?sa) # evs @
                [EvServiceAccountsGet ?ns ?name (Inr ?sa),
                 EvServiceAccountsUpdate ?ns (linked ?n m i ?sa) (Inr (relinked ?n m i ?sa))]"
      have "HasPrefix ?n (dp ?ns ?name) \<and> m = {} \<and> i = {} \<and> r = None
              \<and> accounts (world s1) = (accounts (world s))((?ns, ?name) \<mapsto> relinked ?n m i ?sa)
              \<and> writers (world s1) = [] \<and> trace s1 = trace s @ ?evs \<and> bundlesCreated ?evs = 1"
        using npre none \<open>r = None\<close> q evs Inr hA(4)
        by (simp add: s1 bundlesCreated_def)
      then show ?thesis by blast
    qed
  qed
qed

lemma reconcile_seq_cases:
  assumes cl: "client e = storeClient"
    and x: "x = storeExternals dp tp mar"
    and ok: "settled s p"
    and cls: "getGeneratedDockercfgSecretNames x (heap s p) = (m, i)"
    and run: "createDockercfgSecretIfNeeded x e p s = (r, s1)"
  obtains (converged) "r = None" "s1 = s"
  | (linked) n evs where "HasPrefix n (dp (sa_Namespace (heap s p)) (sa_Name (heap s p)))"
      "\<not> (n \<in> m \<and> n \<in> i)" "m = {} \<or> i = {}" "r = None"
      "accounts (world s1) = (accounts (world s))
         ((sa_Namespace (heap s p), sa_Name (heap s p)) \<mapsto> relinked n m i (heap s p))"
      "writers (world s1) = []" "trace s1 = trace s @ evs" "bundlesCreated evs \<le> 1"
  | (failed) evs where "r \<noteq> None" "accounts (world s1) = accounts (world s)"
      "writers (world s1) = []" "trace s1 = trace s @ evs" "bundlesCreated evs = 0"
  using reconcile_seq[OF cl x ok cls run] by (elim disjE exE conjE) auto

text \<open>
  C1, as amended: on the sequential store, which refuses a call only for the state it
  holds (a missing object, a name in use, a moved version token), with the snapshot
  equal to the stored principal and no concurrent writer, two reconciliations in
  succession create at most one bundle; when the first created a bundle the second
  creates none; names that occur once in a list of the principal still occur once in
  the stored lists afterwards; and after a first call that returned success the second
  returns success and leaves the stored service accounts and secrets as they are.
\<close>

theorem reconcile_twice:
  assumes cl: "client e = storeClient"
    and x: "x = storeExternals dp tp mar"
    and old: "p < nextp s"
    and seq: "writers (world s) = []"
    and stored: "accounts (world s) (sa_Namespace (heap s p), sa_Name (heap s p)) = Some (heap s p)"
    and first: "createDockercfgSecretIfNeeded x e p s = (r1, s1)"
    and second: "createDockercfgSecretIfNeeded x e p s1 = (r2, s2)"
  shows "bundlesCreated (trace s2) \<le> bundlesCreated (trace s) + 1
       \<and> (bundlesCreated (trace s) < bundlesCreated (trace s1)
            \<longrightarrow> bundlesCreated (trace s2) = bundlesCreated (trace s1))
       \<and> (\<exists>final. accounts (world s2) (sa_Namespace (heap s p), sa_Name (heap s p)) = Some final
            \<and> (distinct (map or_Name (sa_Secrets (heap s p)))
                 \<longrightarrow> distinct (map or_Name (sa_Secrets final)))
            \<and> (distinct (map lor_Name (sa_ImagePullSecrets (heap s p)))
                 \<longrightarrow> distinct (map lor_Name (sa_ImagePullSecrets final))))
       \<and> (r1 = None \<longrightarrow> r2 = None \<and> accounts (world s2) = accounts (world s1)
                          \<and> secrets (world s2) = secrets (world s1))"
proof -
  let ?sa = "heap s p"
  let ?key = "(sa_Namespace ?sa, sa_Name ?sa)"
  obtain m i where cls: "getGeneratedDockercfgSecretNames x ?sa = (m, i)" by force
  have ok: "settled s p" using old seq stored by (simp add: settled_def)
  have kept: "p < nextp s1" "heap s1 p = ?sa"
    using reconcile_objectsKept[of s x e p] first old by (auto simp: objectsKept_def)
  have cls1: "getGeneratedDockercfgSecretNames x (heap s1 p) = (m, i)"
    using cls kept by simp
  have after: "r2 = None \<and> world s2 = world s1
               \<and> bundlesCreated (trace s2) = bundlesCreated (trace s1)"
    if pre: "HasPrefix n (dp (sa_Namespace ?sa) (sa_Name ?sa))"
      and miss: "\<not> (n \<in> m \<and> n \<in> i)" and part: "m = {} \<or> i = {}"
      and acc: "accounts (world s1) = (accounts (world s))(?key \<mapsto> relinked n m i ?sa)"
    for n
  proof -
    have st: "accounts (world s1) (sa_Namespace (heap s1 p), sa_Name (heap s1 p))
                = Some (relinked n m i (heap s1 p))"
      using acc kept by simp
    have pre1: "HasPrefix n (dp (sa_Namespace (heap s1 p)) (sa_Name (heap s1 p)))"
      using pre kept by simp
    from reconcile_after_link[OF cl x kept(1) cls1 st pre1 miss part] second
    show ?thesis
      by (auto simp: afterGet_def bundlesCreated_append bundlesCreated_sa_events)
  qed
  have dist: "distinct (map or_Name (sa_Secrets ?sa))
                \<longrightarrow> distinct (map or_Name (sa_Secrets (relinked n m i ?sa)))"
    "distinct (map lor_Name (sa_ImagePullSecrets ?sa))
                \<longrightarrow> distinct (map lor_Name (sa_ImagePullSecrets (relinked n m i ?sa)))"
    if "HasPrefix n (dp (sa_Namespace ?sa) (sa_Name ?sa))" for n
    using relinked_distinct[OF cls[unfolded x] that] by simp_all
  from cl x ok cls first show ?thesis
  proof (cases rule: reconcile_seq_cases)
    case converged
    with first second have "r2 = None" "s2 = s" by simp_all
    with converged stored show ?thesis by simp
  next
    case (linked n evs)
    from after[OF linked(1,2,3,5)] have a: "r2 = None" "world s2 = world s1"
      "bundlesCreated (trace s2) = bundlesCreated (trace s1)"
      by simp_all
    have "accounts (world s2) ?key = Some (relinked n m i ?sa)"
      using a(2) linked(5) by simp
    with a linked dist[OF linked(1)] show ?thesis
      by (simp add: bundlesCreated_append)
  next
    case (failed evs)
    have ok1: "settled s1 p"
      using kept failed stored by (simp add: settled_def)
    from cl x ok1 cls1 second show ?thesis
    proof (cases rule: reconcile_seq_cases)
      case converged
      with failed stored show ?thesis by (auto simp: bundlesCreated_append)
    next
      case (linked n evs2)
      have "accounts (world s2) ?key = Some (relinked n m i ?sa)"
        using linked(5) kept by simp
      moreover have "HasPrefix n (dp (sa_Namespace ?sa) (sa_Name ?sa))"
        using linked(1) kept by simp
      ultimately show ?thesis
        using failed linked(7,8) dist[of n] by (auto simp: bundlesCreated_append)
    next
      case failed2: (failed evs2)
      with failed stored show ?thesis by (auto simp: bundlesCreated_append)
    qed
  qed
qed

theorem reconcile_twice_witness:
  "bundlesCreated (trace (snd (createDockercfgSecretIfNeeded exampleExternals exampleController 0 happyState))) = 1
   \<and> bundlesCreated (trace (snd (createDockercfgSecretIfNeeded exampleExternals exampleController 0
         (snd (createDockercfgSecretIfNeeded exampleExternals exampleController 0 happyState))))) = 1
   \<and> fst (createDockercfgSecretIfNeeded exampleExternals exampleController 0
         (snd (createDockercfgSecretIfNeeded exampleExternals exampleController 0 happyState))) = None
   \<and> accounts (world (snd (createDockercfgSecretIfNeeded exampleExternals exampleController 0
         (snd (createDockercfgSecretIfNeeded exampleExternals exampleController 0 happyState)))))
      = accounts (world (snd (createDockercfgSecretIfNeeded exampleExternals exampleController 0 happyState)))"
proof -
  let ?R1 = "createDockercfgSecretIfNeeded exampleExternals exampleController 0 happyState"
  let ?R2 = "createDockercfgSecretIfNeeded exampleExternals exampleController 0 (snd ?R1)"
  have cl: "client exampleController = storeClient"
    by (simp add: example_simps)
  have old: "0 < nextp happyState" and seq: "writers (world happyState) = []"
    and stored: "accounts (world happyState) (sa_Namespace (heap happyState 0), sa_Name (heap happyState 0))
                   = Some (heap happyState 0)"
    by (simp_all add: happyState_def snapshotState_def exampleStore_def examplePrincipal_def)
  have first: "?R1 = (fst ?R1, snd ?R1)" and second: "?R2 = (fst ?R2, snd ?R2)"
    by simp_all
  have one: "bundlesCreated (trace (snd ?R1)) = 1"
    by code_simp
  have ok: "Option.is_none (fst ?R1)"
    by code_simp
  have start: "bundlesCreated (trace happyState) = 0"
    by (simp add: happyState_def snapshotState_def bundlesCreated_def)
  show ?thesis
    using reconcile_twice[OF cl exampleExternals_def old seq stored first second] one ok start
    by (simp add: Option.is_none_def)
qed

lemma bundlesCreated_sa_only: "list_all isServiceAccountsEvent evs \<Longrightarrow> bundlesCreated evs = 0"
  by (induction evs) (auto simp: bundlesCreated_def elim: isServiceAccountsEvent.elims)

lemma reconcile_build_count:
  assumes cls: "getGeneratedDockercfgSecretNames x (heap s p) = ({}, {})"
    and get: "ServiceAccounts_Get (client e) (sa_Namespace (heap s p)) (sa_Name (heap s p)) (world s)
                = (Inr live, w)"
    and ver: "sa_ResourceVersion live = sa_ResourceVersion (heap s p)"
    and old: "p < nextp s"
    and built: "\<not> isl (fst (createDockerPullSecret x e p
                  (afterGet s (sa_Namespace (heap s p)) (sa_Name (heap s p)) live w)))"
  shows "bundlesCreated (trace (snd (createDockercfgSecretIfNeeded x e p s))) = bundlesCreated (trace s) + 1"
proof -
  let ?sA = "afterGet s (sa_Namespace (heap s p)) (sa_Name (heap s p)) live w"
  from old have pne: "p \<noteq> nextp s" by simp
  have g: "call_ServiceAccounts_Get e (sa_Namespace (heap s p)) (sa_Name (heap s p)) s
             = (Inr (nextp s), ?sA)"
    using get by (simp add: call_ServiceAccounts_Get_def emit_def afterGet_def)
  have hA: "heap ?sA (nextp s) = live" "heap ?sA p = heap s p"
    "trace ?sA = trace s @ [EvServiceAccountsGet (sa_Namespace (heap s p)) (sa_Name (heap s p)) (Inr live)]"
    using pne by (simp_all add: afterGet_def)
  from built obtain sec s2 where build: "createDockerPullSecret x e p ?sA = (Inr sec, s2)"
    by (cases "createDockerPullSecret x e p ?sA"; cases "fst (createDockerPullSecret x e p ?sA)") auto
  from build_trace[OF build] obtain evs where
    evs: "trace s2 = trace ?sA @ evs" "bundlesCreated evs = 1"
    by auto
  obtain err s3 where link: "createDockerPullSecretReference x e p (sec_Name sec) s2 = (err, s3)"
    by force
  from linker_trace[of x e p "sec_Name sec" s2] link obtain evs3 where
    evs3: "trace s3 = trace s2 @ evs3" "list_all isServiceAccountsEvent evs3"
    by auto
  obtain derr s4 where del: "call_Secrets_Delete e (sec_Namespace sec) (sec_Name sec) s3 = (derr, s4)"
    by force
  have t4: "trace s4 = trace s3 @ [EvSecretsDelete (sec_Namespace sec) (sec_Name sec) derr]"
    using del by (auto simp: call_Secrets_Delete_def emit_def split: prod.splits)
  have count3: "bundlesCreated (trace s3) = bundlesCreated (trace s) + 1"
    using evs evs3(1) hA(3) bundlesCreated_sa_only[OF evs3(2)]
    by (simp add: bundlesCreated_def)
  have count4: "bundlesCreated (trace s4) = bundlesCreated (trace s) + 1"
    "bundlesCreated (trace (HandleError (the derr) s4)) = bundlesCreated (trace s) + 1"
    using count3 t4 by (simp_all add: bundlesCreated_append bundlesCreated_def HandleError_def emit_def)
  show ?thesis
    using cls g hA(1,2) ver build link del count3 count4
    by (simp add: createDockercfgSecretIfNeeded_def)
qed

text \<open>
  C1 as stated fails on a store that refuses the linker's write with an error other than
  Conflict: the first call creates a bundle and returns the error, the stored principal
  is as it was, and the second call creates a second bundle.
\<close>

theorem reconcile_twice_second_bundle_counterexample:
  "bundlesCreated (trace (snd (createDockercfgSecretIfNeeded exampleExternals forbiddenController 0
      forbiddenState))) = 1
   \<and> accounts (world (snd (createDockercfgSecretIfNeeded exampleExternals forbiddenController 0
        forbiddenState))) (''ns'', ''default'') = Some (heap forbiddenState 0)
   \<and> bundlesCreated (trace (snd (createDockercfgSecretIfNeeded exampleExternals forbiddenController 0
        (snd (createDockercfgSecretIfNeeded exampleExternals forbiddenController 0 forbiddenState)))))
      = 2"
proof -
  let ?X = exampleExternals and ?E = forbiddenController and ?S = forbiddenState
  let ?P = "examplePrincipal [] [] ''1''"
  let ?S1 = "snd (createDockercfgSecretIfNeeded ?X ?E 0 ?S)"
  have cl: "ServiceAccounts_Get (client ?E) = store_ServiceAccounts_Get"
    by (simp add: forbiddenController_def storeClient_def)
  have h0: "heap ?S 0 = ?P" "nextp ?S = 1" "trace ?S = []"
    by (simp_all add: forbiddenState_def snapshotState_def)
  have cls: "getGeneratedDockercfgSecretNames ?X ?P = ({}, {})"
    by (simp add: getGenerated_eq example_simps examplePrincipal_def)
  have names: "sa_Namespace ?P = ''ns''" "sa_Name ?P = ''default''" "sa_ResourceVersion ?P = ''1''"
    by (simp_all add: examplePrincipal_def)
  have get0: "ServiceAccounts_Get (client ?E) ''ns'' ''default'' (world ?S) = (Inr ?P, world ?S)"
    by (simp add: cl store_ServiceAccounts_Get_def forbiddenState_def snapshotState_def exampleStore_def)
  have built0: "\<not> isl (fst (createDockerPullSecret ?X ?E 0 (afterGet ?S ''ns'' ''default'' ?P (world ?S))))"
    by code_simp
  have first: "bundlesCreated (trace ?S1) = 1"
    using reconcile_build_count[of ?X ?S 0 ?E ?P "world ?S"] cls get0 built0
    by (simp add: h0 names bundlesCreated_def)
  have kept: "heap ?S1 0 = ?P" "0 < nextp ?S1"
    using reconcile_objectsKept[of ?S ?X ?E 0] by (auto simp: objectsKept_def h0)
  have same: "accounts (world ?S1) (''ns'', ''default'') = Some ?P"
    by code_simp
  then have get1: "ServiceAccounts_Get (client ?E) ''ns'' ''default'' (world ?S1) = (Inr ?P, world ?S1)"
    by (simp add: cl store_ServiceAccounts_Get_def)
  have built1: "\<not> isl (fst (createDockerPullSecret ?X ?E 0 (afterGet ?S1 ''ns'' ''default'' ?P (world ?S1))))"
    by code_simp
  have second: "bundlesCreated (trace (snd (createDockercfgSecretIfNeeded ?X ?E 0 ?S1))) = 2"
    using reconcile_build_count[of ?X ?S1 0 ?E ?P "world ?S1"] cls get1 built1 first
    by (simp add: kept names)
  from first same second show ?thesis
    by (simp add: h0)
qed

section \<open>The delay between two fetches\<close>






end
